theory Spec2Isabelle
  imports Complex_Main
begin

section \<open>JavaScript numbers and values\<close>

text \<open>
  The server computes with JavaScript numbers. A number is modelled as a real
  extended with the three special values of the language: \<open>Infinity\<close>,
  \<open>-Infinity\<close> and \<open>NaN\<close>. There is one zero, the positive one. The special
  values follow the rules of the language: a comparison with \<open>NaN\<close> is false, a
  non-zero number divided by zero is an infinity, zero divided by zero is \<open>NaN\<close>.
  The functions \<open>js_sub\<close>, \<open>js_div\<close> and \<open>js_mul\<close> give the exact result of an
  operation; the program computes in doubles, where the exact result is rounded, and
  the rounding is added below.
\<close>

datatype jsnum = Fin real | PosInf | NegInf | NaN

fun js_sub :: "jsnum \<Rightarrow> jsnum \<Rightarrow> jsnum" where
  "js_sub NaN y = NaN"
| "js_sub (Fin a) NaN = NaN"
| "js_sub PosInf NaN = NaN"
| "js_sub NegInf NaN = NaN"
| "js_sub (Fin a) (Fin b) = Fin (a - b)"
| "js_sub (Fin a) PosInf = NegInf"
| "js_sub (Fin a) NegInf = PosInf"
| "js_sub PosInf PosInf = NaN"
| "js_sub PosInf (Fin b) = PosInf"
| "js_sub PosInf NegInf = PosInf"
| "js_sub NegInf NegInf = NaN"
| "js_sub NegInf (Fin b) = NegInf"
| "js_sub NegInf PosInf = NegInf"

fun js_div :: "jsnum \<Rightarrow> jsnum \<Rightarrow> jsnum" where
  "js_div NaN y = NaN"
| "js_div (Fin a) NaN = NaN"
| "js_div PosInf NaN = NaN"
| "js_div NegInf NaN = NaN"
| "js_div (Fin a) (Fin b) =
     (if b = 0 then (if a = 0 then NaN else if 0 < a then PosInf else NegInf)
      else Fin (a / b))"
| "js_div (Fin a) PosInf = Fin 0"
| "js_div (Fin a) NegInf = Fin 0"
| "js_div PosInf (Fin b) = (if b < 0 then NegInf else PosInf)"
| "js_div NegInf (Fin b) = (if b < 0 then PosInf else NegInf)"
| "js_div PosInf PosInf = NaN"
| "js_div PosInf NegInf = NaN"
| "js_div NegInf PosInf = NaN"
| "js_div NegInf NegInf = NaN"

fun js_mul :: "jsnum \<Rightarrow> jsnum \<Rightarrow> jsnum" where
  "js_mul NaN y = NaN"
| "js_mul (Fin a) NaN = NaN"
| "js_mul PosInf NaN = NaN"
| "js_mul NegInf NaN = NaN"
| "js_mul (Fin a) (Fin b) = Fin (a * b)"
| "js_mul (Fin a) PosInf = (if a = 0 then NaN else if 0 < a then PosInf else NegInf)"
| "js_mul (Fin a) NegInf = (if a = 0 then NaN else if 0 < a then NegInf else PosInf)"
| "js_mul PosInf (Fin b) = (if b = 0 then NaN else if 0 < b then PosInf else NegInf)"
| "js_mul NegInf (Fin b) = (if b = 0 then NaN else if 0 < b then NegInf else PosInf)"
| "js_mul PosInf PosInf = PosInf"
| "js_mul PosInf NegInf = NegInf"
| "js_mul NegInf PosInf = NegInf"
| "js_mul NegInf NegInf = PosInf"

text \<open>The relational operators \<open><\<close> and \<open>>\<close> on numbers.\<close>

fun js_lt :: "jsnum \<Rightarrow> jsnum \<Rightarrow> bool" where
  "js_lt NaN y = False"
| "js_lt (Fin a) NaN = False"
| "js_lt PosInf y = False"
| "js_lt NegInf NaN = False"
| "js_lt (Fin a) (Fin b) = (a < b)"
| "js_lt (Fin a) PosInf = True"
| "js_lt (Fin a) NegInf = False"
| "js_lt NegInf (Fin b) = True"
| "js_lt NegInf PosInf = True"
| "js_lt NegInf NegInf = False"

definition js_gt :: "jsnum \<Rightarrow> jsnum \<Rightarrow> bool" where
  "js_gt x y = js_lt y x"

text \<open>\<open>Math.abs\<close> and the two-argument \<open>Math.min\<close>.\<close>

fun Math_abs :: "jsnum \<Rightarrow> jsnum" where
  "Math_abs NaN = NaN"
| "Math_abs PosInf = PosInf"
| "Math_abs NegInf = PosInf"
| "Math_abs (Fin a) = Fin \<bar>a\<bar>"

definition Math_min :: "jsnum \<Rightarrow> jsnum \<Rightarrow> jsnum" where
  "Math_min x y = (if x = NaN \<or> y = NaN then NaN else if js_lt y x then y else x)"

subsection \<open>Rounding\<close>

text \<open>
  An operation on doubles returns its exact result rounded to a double. Which double
  that is depends on the binary format; the model takes the rounding as a parameter
  \<open>rd\<close>, a function from the exact finite result to the number returned, of which it
  uses three properties that the rounding of doubles to the nearest has: the result is
  never \<open>NaN\<close>; rounding keeps the order (a larger exact result never gives a smaller
  number; a result too large rounds to an infinity); and a number \<open>k / 2^j\<close> with
  \<open>\<bar>k\<bar> \<le> 2^53\<close> and \<open>j \<le> 1022\<close> is a double and is returned as it is. Exact
  arithmetic, which rounds nothing, has the three properties too.
\<close>

definition is_rounding :: "(real \<Rightarrow> jsnum) \<Rightarrow> bool" where
  "is_rounding f \<longleftrightarrow>
     (\<forall>x. f x \<noteq> NaN)
     \<and> (\<forall>x y. x \<le> y \<longrightarrow> \<not> js_lt (f y) (f x))
     \<and> (\<forall>k j. \<bar>k\<bar> \<le> 2 ^ 53 \<and> j \<le> (1022::nat) \<longrightarrow>
           f (real_of_int k / 2 ^ j) = Fin (real_of_int k / 2 ^ j))"

typedef rounding = "{f. is_rounding f}"
  morphisms round_to Abs_rounding
proof
  show "Fin \<in> {f. is_rounding f}"
    by (simp add: is_rounding_def)
qed

definition exact_rounding :: rounding where
  "exact_rounding = Abs_rounding Fin"

text \<open>
  The number an operation returns, from its exact result: a finite result is
  rounded, an infinity or \<open>NaN\<close> is returned as it is.
\<close>

definition rounded :: "rounding \<Rightarrow> jsnum \<Rightarrow> jsnum" where
  "rounded rd x = (case x of Fin r \<Rightarrow> round_to rd r | _ \<Rightarrow> x)"

text \<open>
  The one product outside the change detector doubles a number below 100 in
  \<open>analyzeMetrics\<close>; a doubling is exact, and \<open>js_mul\<close> is used there as it is.
\<close>

subsection \<open>Numbers as text\<close>

text \<open>
  Strings are the UTF-8 bytes of the source text. The decimal digits of a natural
  number:
\<close>

definition digit_char :: "nat \<Rightarrow> char" where
  "digit_char d = ''0123456789'' ! d"

fun dec :: "nat \<Rightarrow> string" where
  "dec n = (if n < 10 then [digit_char n] else dec (n div 10) @ [digit_char (n mod 10)])"

declare dec.simps [simp del]

text \<open>
  The conversion of a finite number to a string (\<open>Number::toString\<close>) prints the
  shortest decimal text that reads back as the same double; it is not determined by
  the real value alone, so it is a parameter \<open>ns\<close> of every function that prints a
  number. The special values print as the language says.
\<close>

fun num_to_string :: "(real \<Rightarrow> string) \<Rightarrow> jsnum \<Rightarrow> string" where
  "num_to_string ns NaN = ''NaN''"
| "num_to_string ns PosInf = ''Infinity''"
| "num_to_string ns NegInf = ''-Infinity''"
| "num_to_string ns (Fin r) = ns r"

text \<open>
  \<open>x.toFixed(f)\<close>: a value that is not finite prints as itself; otherwise the sign is
  split off, a magnitude of at least \<open>10^21\<close> prints as \<open>Number::toString\<close> does, and
  below that the integer \<open>n\<close> nearest to \<open>x * 10^f\<close> (the larger one on a tie) is
  printed with \<open>f\<close> digits after the point.
\<close>

definition toFixed :: "(real \<Rightarrow> string) \<Rightarrow> nat \<Rightarrow> jsnum \<Rightarrow> string" where
  "toFixed ns f x =
     (case x of
        Fin r \<Rightarrow>
          (let s = (if r < 0 then ''-'' else '''');
               a = \<bar>r\<bar>
           in if 10 ^ 21 \<le> a then s @ ns a
              else
                (let n = nat \<lfloor>a * 10 ^ f + 1 / 2\<rfloor>;
                     m = dec n
                 in if f = 0 then s @ m
                    else
                      (let m' = (if length m \<le> f then replicate (f + 1 - length m) (CHR ''0'') @ m
                                 else m);
                           k = length m'
                       in s @ take (k - f) m' @ ''.'' @ drop (k - f) m')))
      | _ \<Rightarrow> num_to_string ns x)"

subsection \<open>Values\<close>

text \<open>
  A field of a metrics row is any value a parsed JSON document can hold, or absent
  (\<open>undefined\<close>). An object is the list of its own properties.
\<close>

datatype jsval =
    Undefined
  | JNull
  | JBool bool
  | JNum jsnum
  | JStr string
  | JArr "jsval list"
  | JObj "(string \<times> jsval) list"

type_synonym jsobj = "(string \<times> jsval) list"

text \<open>Reading the property \<open>k\<close> of an object: \<open>undefined\<close> when it has none.\<close>

definition get_prop :: "jsobj \<Rightarrow> string \<Rightarrow> jsval" where
  "get_prop obj k = (case map_of obj k of None \<Rightarrow> Undefined | Some v \<Rightarrow> v)"

text \<open>
  Truthiness: \<open>undefined\<close>, \<open>null\<close>, \<open>false\<close>, \<open>0\<close>, \<open>NaN\<close> and the empty
  string are falsy, everything else is truthy. \<open>js_or a b\<close> is \<open>a || b\<close>.
\<close>

fun truthy :: "jsval \<Rightarrow> bool" where
  "truthy Undefined = False"
| "truthy JNull = False"
| "truthy (JBool b) = b"
| "truthy (JNum x) = (x \<noteq> NaN \<and> x \<noteq> Fin 0)"
| "truthy (JStr s) = (s \<noteq> [])"
| "truthy (JArr xs) = True"
| "truthy (JObj kvs) = True"

definition js_or :: "jsval \<Rightarrow> jsval \<Rightarrow> jsval" where
  "js_or a b = (if truthy a then a else b)"

text \<open>
  The conversion of a value to a string, as a template literal and \<open>parseFloat\<close>
  apply it. An array prints its elements separated by commas, \<open>null\<close> and
  \<open>undefined\<close> elements as nothing.
\<close>

fun join_comma :: "string list \<Rightarrow> string" where
  "join_comma [] = []"
| "join_comma [x] = x"
| "join_comma (x # y # ys) = x @ '','' @ join_comma (y # ys)"

fun js_to_string :: "(real \<Rightarrow> string) \<Rightarrow> jsval \<Rightarrow> string" where
  "js_to_string ns Undefined = ''undefined''"
| "js_to_string ns JNull = ''null''"
| "js_to_string ns (JBool b) = (if b then ''true'' else ''false'')"
| "js_to_string ns (JNum x) = num_to_string ns x"
| "js_to_string ns (JStr s) = s"
| "js_to_string ns (JArr xs) =
     join_comma (map (\<lambda>x. if x = Undefined \<or> x = JNull then [] else js_to_string ns x) xs)"
| "js_to_string ns (JObj kvs) = ''[object Object]''"

subsection \<open>parseFloat\<close>

text \<open>
  \<open>parseFloat\<close> converts its argument to a string, drops the white space and line
  terminators at its start and reads the longest prefix that is a decimal literal:
  an optional sign, then \<open>Infinity\<close> or digits with an optional fraction and an
  optional exponent. With no such prefix the result is \<open>NaN\<close>. It never throws.
\<close>

definition is_digit :: "char \<Rightarrow> bool" where
  "is_digit c = (c \<in> set ''0123456789'')"

text \<open>The value of a digit is its place among the ten digits.\<close>

definition digit_val :: "char \<Rightarrow> nat" where
  "digit_val c = length (takeWhile (\<lambda>d. d \<noteq> c) ''0123456789'')"

definition digits_val :: "string \<Rightarrow> nat" where
  "digits_val ds = foldl (\<lambda>a c. 10 * a + digit_val c) 0 ds"

text \<open>
  White space at the start: the ASCII characters U+0009 to U+000D and U+0020, and
  in UTF-8 the no-break space U+00A0, the byte order mark U+FEFF, the line and
  paragraph separators and the other space separators.
\<close>

definition ws1 :: "char \<Rightarrow> bool" where
  "ws1 c = (c \<in> set [CHR 0x09, CHR 0x0A, CHR 0x0B, CHR 0x0C, CHR 0x0D, CHR 0x20])"

definition ws2 :: "string \<Rightarrow> bool" where
  "ws2 w = (w = [CHR 0xC2, CHR 0xA0])"

definition ws3 :: "string \<Rightarrow> bool" where
  "ws3 w = (w \<in> set
     [[CHR 0xE1, CHR 0x9A, CHR 0x80],
      [CHR 0xE2, CHR 0x80, CHR 0x80], [CHR 0xE2, CHR 0x80, CHR 0x81],
      [CHR 0xE2, CHR 0x80, CHR 0x82], [CHR 0xE2, CHR 0x80, CHR 0x83],
      [CHR 0xE2, CHR 0x80, CHR 0x84], [CHR 0xE2, CHR 0x80, CHR 0x85],
      [CHR 0xE2, CHR 0x80, CHR 0x86], [CHR 0xE2, CHR 0x80, CHR 0x87],
      [CHR 0xE2, CHR 0x80, CHR 0x88], [CHR 0xE2, CHR 0x80, CHR 0x89],
      [CHR 0xE2, CHR 0x80, CHR 0x8A], [CHR 0xE2, CHR 0x80, CHR 0xA8],
      [CHR 0xE2, CHR 0x80, CHR 0xA9], [CHR 0xE2, CHR 0x80, CHR 0xAF],
      [CHR 0xE2, CHR 0x81, CHR 0x9F], [CHR 0xE3, CHR 0x80, CHR 0x80],
      [CHR 0xEF, CHR 0xBB, CHR 0xBF]])"

fun trim_start :: "string \<Rightarrow> string" where
  "trim_start [] = []"
| "trim_start (c # cs) =
     (if ws1 c then trim_start cs
      else if ws2 (c # take 1 cs) then trim_start (drop 1 cs)
      else if ws3 (c # take 2 cs) then trim_start (drop 2 cs)
      else c # cs)"

text \<open>The exponent part \<open>e\<close>, \<open>e+\<close> or \<open>e-\<close> with digits; it counts only when complete.\<close>

definition exponent_part :: "string \<Rightarrow> int" where
  "exponent_part r =
     (case r of
        [] \<Rightarrow> 0
      | c # cs \<Rightarrow>
          if c = CHR ''e'' \<or> c = CHR ''E'' then
            (let neg = (take 1 cs = ''-'');
                 ds = takeWhile is_digit (if take 1 cs = ''-'' \<or> take 1 cs = ''+'' then drop 1 cs else cs)
             in if ds = [] then 0
                else if neg then - int (digits_val ds) else int (digits_val ds))
          else 0)"

definition parseFloat_str :: "string \<Rightarrow> jsnum" where
  "parseFloat_str input =
     (let t = trim_start input;
          neg = (take 1 t = ''-'');
          u = (if take 1 t = ''-'' \<or> take 1 t = ''+'' then drop 1 t else t)
      in if take 8 u = ''Infinity'' then (if neg then NegInf else PosInf)
         else
           (let ip = takeWhile is_digit u;
                r1 = dropWhile is_digit u;
                dot = (take 1 r1 = ''.'');
                fp = (if dot then takeWhile is_digit (drop 1 r1) else []);
                r2 = (if dot then dropWhile is_digit (drop 1 r1) else r1)
            in if ip = [] \<and> fp = [] then NaN
               else
                 (let k = exponent_part r2 - int (length fp);
                      m = real (digits_val (ip @ fp));
                      v = (if 0 \<le> k then m * 10 ^ nat k else m / 10 ^ nat (- k))
                  in Fin (if neg then - v else v))))"

text \<open>
  A number passed to \<open>parseFloat\<close> is printed and read back, which gives the number
  itself; any other value is read from its text.
\<close>

definition parseFloat :: "(real \<Rightarrow> string) \<Rightarrow> jsval \<Rightarrow> jsnum" where
  "parseFloat ns v = (case v of JNum x \<Rightarrow> x | _ \<Rightarrow> parseFloat_str (js_to_string ns v))"

section \<open>Thresholds and notification priorities\<close>

text \<open>The table \<open>THRESHOLDS\<close> and the object \<open>NOTIFICATION_PRIORITY\<close>.\<close>

definition THRESHOLDS_ctr_good :: jsnum where "THRESHOLDS_ctr_good = Fin 1.5"
definition THRESHOLDS_ctr_average :: jsnum where "THRESHOLDS_ctr_average = Fin 0.8"
definition THRESHOLDS_ctr_critical :: jsnum where "THRESHOLDS_ctr_critical = Fin 0.5"
definition THRESHOLDS_cpm_good :: jsnum where "THRESHOLDS_cpm_good = Fin 30"
definition THRESHOLDS_cpm_average :: jsnum where "THRESHOLDS_cpm_average = Fin 50"
definition THRESHOLDS_cpm_critical :: jsnum where "THRESHOLDS_cpm_critical = Fin 75"
definition THRESHOLDS_frequency_optimal :: jsnum where "THRESHOLDS_frequency_optimal = Fin 3"
definition THRESHOLDS_frequency_warning :: jsnum where "THRESHOLDS_frequency_warning = Fin 5"
definition THRESHOLDS_frequency_critical :: jsnum where "THRESHOLDS_frequency_critical = Fin 7"
definition THRESHOLDS_roas_good :: jsnum where "THRESHOLDS_roas_good = Fin 3"
definition THRESHOLDS_roas_average :: jsnum where "THRESHOLDS_roas_average = Fin 2"
definition THRESHOLDS_roas_poor :: jsnum where "THRESHOLDS_roas_poor = Fin 1.5"

lemmas THRESHOLDS_defs =
  THRESHOLDS_ctr_good_def THRESHOLDS_ctr_average_def THRESHOLDS_ctr_critical_def
  THRESHOLDS_cpm_good_def THRESHOLDS_cpm_average_def THRESHOLDS_cpm_critical_def
  THRESHOLDS_frequency_optimal_def THRESHOLDS_frequency_warning_def
  THRESHOLDS_frequency_critical_def
  THRESHOLDS_roas_good_def THRESHOLDS_roas_average_def THRESHOLDS_roas_poor_def

definition PRIORITY_CRITICAL :: string where "PRIORITY_CRITICAL = ''critical''"
definition PRIORITY_URGENT :: string where "PRIORITY_URGENT = ''urgent''"
definition PRIORITY_WARNING :: string where "PRIORITY_WARNING = ''warning''"
definition PRIORITY_INFO :: string where "PRIORITY_INFO = ''info''"
definition PRIORITY_SUCCESS :: string where "PRIORITY_SUCCESS = ''success''"

lemmas PRIORITY_defs =
  PRIORITY_CRITICAL_def PRIORITY_URGENT_def PRIORITY_WARNING_def PRIORITY_INFO_def
  PRIORITY_SUCCESS_def

text \<open>The pictographs of the message texts, as the bytes the source file holds.\<close>

definition sym_siren :: string where
  "sym_siren = [CHR 0xF0, CHR 0x9F, CHR 0x9A, CHR 0xA8]"
definition sym_warning :: string where
  "sym_warning = [CHR 0xE2, CHR 0x9A, CHR 0xA0, CHR 0xEF, CHR 0xB8, CHR 0x8F]"
definition sym_rocket :: string where
  "sym_rocket = [CHR 0xF0, CHR 0x9F, CHR 0x9A, CHR 0x80]"
definition sym_target :: string where
  "sym_target = [CHR 0xF0, CHR 0x9F, CHR 0x8E, CHR 0xAF]"
definition sym_money :: string where
  "sym_money = [CHR 0xF0, CHR 0x9F, CHR 0x92, CHR 0xB0]"

section \<open>Change detection\<close>

text \<open>
  \<open>detectSignificantChanges\<close> receives the four numbers its caller has parsed and
  keeps, per campaign id, the last snapshot it saw in the object \<open>campaignState\<close>.
  The object is a map from ids to entries; an entry is the snapshot spread into a new
  object together with the time of the check and, from the second observation on, the
  prior \<open>ctr\<close> and \<open>cpm\<close>. An entry is what the function stored in memory: the
  passage of the state through the JSON file between two tool calls is not part of
  the function. The ids are those of campaigns, not the names of the properties that
  every object inherits.
\<close>

record current_metrics =
  ctr :: jsnum
  cpm :: jsnum
  spend :: jsnum
  frequency :: jsnum

record campaign_entry = current_metrics +
  lastChecked :: string
  previousCtr :: "jsnum option"
  previousCpm :: "jsnum option"

text \<open>
  A change event and a notification of the analysis share the fields \<open>priority\<close>
  and \<open>message\<close>; both records extend the record of these two.
\<close>

record alert =
  priority :: string
  message :: string

record change = alert +
  type :: string
  recommendation :: string

type_synonym campaign_state = "string \<rightharpoonup> campaign_entry"

text \<open>
  The percentage change \<open>((current - previous) / previous) * 100\<close>, which the
  function computes for \<open>ctr\<close> and for \<open>cpm\<close>: three operations on doubles, each
  returning its exact result rounded. Nothing guards the division.
\<close>

definition pct_change :: "rounding \<Rightarrow> jsnum \<Rightarrow> jsnum \<Rightarrow> jsnum" where
  "pct_change rd current previous =
     rounded rd (js_mul
       (rounded rd (js_div (rounded rd (js_sub current previous)) previous))
       (Fin 100))"

text \<open>
  The clock is a parameter: \<open>now\<close> is the text \<open>new Date().toISOString()\<close> gives at
  the call. So are the rounding \<open>rd\<close> and the printer \<open>ns\<close> of numbers. The result is the returned value (\<open>None\<close> for \<open>null\<close>) and the state
  after the call.
\<close>

definition detectSignificantChanges ::
  "rounding \<Rightarrow> (real \<Rightarrow> string) \<Rightarrow> string \<Rightarrow> string \<Rightarrow> current_metrics
     \<Rightarrow> campaign_state \<Rightarrow> change list option \<times> campaign_state" where
  "detectSignificantChanges rd ns now campaignId currentMetrics campaignState =
     (case campaignState campaignId of
        None \<Rightarrow>
          (None,
           campaignState(campaignId \<mapsto>
             \<lparr>ctr = ctr currentMetrics, cpm = cpm currentMetrics,
              spend = spend currentMetrics, frequency = frequency currentMetrics,
              lastChecked = now, previousCtr = None, previousCpm = None\<rparr>))
      | Some previous \<Rightarrow>
          (let ctrChange = pct_change rd (ctr currentMetrics) (ctr previous);
               cpmChange = pct_change rd (cpm currentMetrics) (cpm previous);
               changes1 =
                 (if js_lt ctrChange (Fin (- 30))
                     \<and> js_lt (ctr currentMetrics) THRESHOLDS_ctr_average
                  then [\<lparr>priority = PRIORITY_CRITICAL,
                         message = sym_siren @ '' CTR crashed ''
                           @ toFixed ns 0 (Math_abs ctrChange) @ ''% from ''
                           @ num_to_string ns (ctr previous) @ ''% to ''
                           @ num_to_string ns (ctr currentMetrics) @ ''%'',
                         type = ''CTR_CRASH'',
                         recommendation = ''Pause campaign and review creative immediately''\<rparr>]
                  else []);
               changes2 =
                 (if js_gt cpmChange (Fin 50)
                     \<and> js_gt (cpm currentMetrics) THRESHOLDS_cpm_average
                  then changes1 @
                       [\<lparr>priority = PRIORITY_URGENT,
                         message = sym_warning @ '' CPM increased ''
                           @ toFixed ns 0 cpmChange @ ''% to $''
                           @ num_to_string ns (cpm currentMetrics),
                         type = ''CPM_SPIKE'',
                         recommendation = ''Review audience targeting and competition''\<rparr>]
                  else changes1);
               changes3 =
                 (if js_gt ctrChange (Fin 50)
                     \<and> js_gt (ctr currentMetrics) THRESHOLDS_ctr_good
                  then changes2 @
                       [\<lparr>priority = PRIORITY_SUCCESS,
                         message = sym_rocket @ '' CTR improved ''
                           @ toFixed ns 0 ctrChange @ ''% to ''
                           @ num_to_string ns (ctr currentMetrics) @ ''%'',
                         type = ''PERFORMANCE_BOOST'',
                         recommendation = ''Consider increasing budget to scale''\<rparr>]
                  else changes2)
           in (if 0 < length changes3 then Some changes3 else None,
               campaignState(campaignId \<mapsto>
                 \<lparr>ctr = ctr currentMetrics, cpm = cpm currentMetrics,
                  spend = spend currentMetrics, frequency = frequency currentMetrics,
                  lastChecked = now, previousCtr = Some (ctr previous),
                  previousCpm = Some (cpm previous)\<rparr>))))"

text \<open>Whether a returned value holds an event of a given type.\<close>

definition emitted :: "string \<Rightarrow> change list option \<Rightarrow> bool" where
  "emitted t r = (case r of None \<Rightarrow> False | Some changes \<Rightarrow> t \<in> set (map type changes))"

section \<open>Metric analysis\<close>

record notification = alert +
  requiresApproval :: "bool option"
  suggestedAction :: string
  suggestedValue :: "jsnum option"

record analysis =
  issues :: "string list"
  recommendations :: "string list"
  notifications :: "notification list"
  score :: int
  status :: string

text \<open>The object \<open>analyzeMetrics\<close> starts from.\<close>

definition initial_analysis :: analysis where
  "initial_analysis =
     \<lparr>issues = [], recommendations = [], notifications = [], score = 100,
      status = ''optimal''\<rparr>"

text \<open>
  A numeric field is read as \<open>parseFloat(field || 0)\<close>: a falsy field (absent,
  \<open>null\<close>, \<open>0\<close>, \<open>NaN\<close>, the empty string) reads as 0, any other field as
  \<open>parseFloat\<close> reads it.
\<close>

definition num_field :: "(real \<Rightarrow> string) \<Rightarrow> jsval \<Rightarrow> jsnum" where
  "num_field ns v = parseFloat ns (js_or v (JNum (Fin 0)))"

text \<open>
  The function body, one definition for each of its commented parts, in the order
  of the source. Each part takes the analysis object and returns it updated.
\<close>

definition ctr_analysis :: "(real \<Rightarrow> string) \<Rightarrow> jsobj \<Rightarrow> jsobj \<Rightarrow> analysis \<Rightarrow> analysis" where
  "ctr_analysis ns metrics context a =
     (let ctr = num_field ns (get_prop metrics ''ctr'') in
      if js_lt ctr THRESHOLDS_ctr_critical then
        (let a1 = a\<lparr>issues := issues a @ [''Critical CTR: '' @ toFixed ns 2 ctr @ ''%''],
                     recommendations := recommendations a @
                       [sym_siren @ '' Immediate action needed: Pause and revise creative''],
                     score := score a - 40,
                     status := ''critical''\<rparr>
         in if js_gt (num_field ns (get_prop metrics ''spend'')) (Fin 50)
            then a1\<lparr>notifications := notifications a1 @
                   [\<lparr>priority = PRIORITY_CRITICAL,
                     message = ''Critical performance alert: CTR '' @ toFixed ns 2 ctr
                       @ ''% with $'' @ js_to_string ns (get_prop metrics ''spend'')
                       @ '' spent'',
                     requiresApproval = Some True,
                     suggestedAction = ''PAUSE_CAMPAIGN'',
                     suggestedValue = None\<rparr>]\<rparr>
            else a1)
      else if js_lt ctr THRESHOLDS_ctr_average then
        a\<lparr>issues := issues a @ [''Low CTR: '' @ toFixed ns 2 ctr @ ''%''],
          recommendations := recommendations a @
            [''Test new ad creative with stronger hooks''],
          score := score a - 25,
          status := ''needs_improvement''\<rparr>
      else if js_gt ctr THRESHOLDS_ctr_good then
        (let a1 = a\<lparr>recommendations := recommendations a @
                       [sym_target @ '' Excellent CTR ('' @ toFixed ns 2 ctr
                          @ ''%) - Scale this winner'']\<rparr>
         in if truthy (get_prop context ''campaignBudget'')
               \<and> js_lt (parseFloat ns (get_prop context ''campaignBudget'')) (Fin 100)
            then a1\<lparr>notifications := notifications a1 @
                   [\<lparr>priority = PRIORITY_SUCCESS,
                     message = ''High performer alert: '' @ toFixed ns 2 ctr
                       @ ''% CTR - Ready to scale'',
                     requiresApproval = None,
                     suggestedAction = ''INCREASE_BUDGET'',
                     suggestedValue =
                       Some (Math_min
                         (js_mul (parseFloat ns (get_prop context ''campaignBudget'')) (Fin 2))
                         (Fin 200))\<rparr>]\<rparr>
            else a1)
      else a)"

definition cpm_analysis :: "(real \<Rightarrow> string) \<Rightarrow> jsobj \<Rightarrow> analysis \<Rightarrow> analysis" where
  "cpm_analysis ns metrics a =
     (let cpm = num_field ns (get_prop metrics ''cpm'') in
      if js_gt cpm THRESHOLDS_cpm_critical then
        a\<lparr>issues := issues a @ [''Critical CPM: $'' @ toFixed ns 2 cpm @ '' AUD''],
          recommendations := recommendations a @
            [sym_siren @ '' CPMs too high - Pause and revise targeting''],
          score := score a - 30,
          notifications := notifications a @
            [\<lparr>priority = PRIORITY_URGENT,
              message = ''High CPM alert: $'' @ toFixed ns 2 cpm @ '' AUD'',
              requiresApproval = None,
              suggestedAction = ''REVIEW_TARGETING'',
              suggestedValue = None\<rparr>]\<rparr>
      else if js_gt cpm THRESHOLDS_cpm_average then
        a\<lparr>issues := issues a @ [''High CPM: $'' @ toFixed ns 2 cpm @ '' AUD''],
          recommendations := recommendations a @
            [''Broaden targeting or test new audiences''],
          score := score a - 20\<rparr>
      else a)"

definition frequency_analysis :: "(real \<Rightarrow> string) \<Rightarrow> jsobj \<Rightarrow> analysis \<Rightarrow> analysis" where
  "frequency_analysis ns metrics a =
     (let frequency = num_field ns (get_prop metrics ''frequency'') in
      if js_gt frequency THRESHOLDS_frequency_critical then
        a\<lparr>issues := issues a @ [''Critical frequency: '' @ toFixed ns 2 frequency],
          recommendations := recommendations a @
            [sym_siren @ '' Severe ad fatigue - Refresh creative immediately''],
          score := score a - 30,
          notifications := notifications a @
            [\<lparr>priority = PRIORITY_URGENT,
              message = ''Ad fatigue alert: Frequency '' @ toFixed ns 2 frequency,
              requiresApproval = Some True,
              suggestedAction = ''REFRESH_CREATIVE'',
              suggestedValue = None\<rparr>]\<rparr>
      else if js_gt frequency THRESHOLDS_frequency_warning then
        a\<lparr>issues := issues a @ [''High frequency: '' @ toFixed ns 2 frequency],
          recommendations := recommendations a @
            [''Audience fatigue emerging - Plan creative refresh''],
          score := score a - 15\<rparr>
      else a)"

text \<open>
  \<open>metrics.purchase_roas[0]?.value\<close>: the property \<open>value\<close> of the first element of
  an array (or of the property \<open>0\<close> of an object) when that is an object, and
  \<open>undefined\<close> in every other case: an empty array, an element that is \<open>null\<close> or has
  no such property, the first character of a string, a number or a boolean.
\<close>

definition first_value :: "jsval \<Rightarrow> jsval" where
  "first_value v =
     (let first = (case v of
                     JArr xs \<Rightarrow> (case xs of [] \<Rightarrow> Undefined | x # _ \<Rightarrow> x)
                   | JObj kvs \<Rightarrow> get_prop kvs ''0''
                   | _ \<Rightarrow> Undefined)
      in case first of JObj kvs \<Rightarrow> get_prop kvs ''value'' | _ \<Rightarrow> Undefined)"

definition roas_analysis :: "(real \<Rightarrow> string) \<Rightarrow> jsobj \<Rightarrow> analysis \<Rightarrow> analysis" where
  "roas_analysis ns metrics a =
     (if truthy (get_prop metrics ''purchase_roas'') then
        (let roas = num_field ns (first_value (get_prop metrics ''purchase_roas'')) in
         if js_lt roas THRESHOLDS_roas_poor then
           a\<lparr>issues := issues a @ [''Poor ROAS: '' @ toFixed ns 2 roas @ ''x''],
             recommendations := recommendations a @
               [''Review product-market fit and pricing''],
             score := score a - 20\<rparr>
         else if js_gt roas THRESHOLDS_roas_good then
           a\<lparr>recommendations := recommendations a @
               [sym_money @ '' Strong ROAS ('' @ toFixed ns 2 roas
                  @ ''x) - Increase investment'']\<rparr>
         else a)
      else a)"

definition final_status :: "analysis \<Rightarrow> analysis" where
  "final_status a =
     (if score a < 40 then a\<lparr>status := ''critical''\<rparr>
      else if score a < 60 then a\<lparr>status := ''poor''\<rparr>
      else if score a < 80 then a\<lparr>status := ''needs_improvement''\<rparr>
      else if 95 \<le> score a then a\<lparr>status := ''excellent''\<rparr>
      else a)"

text \<open>
  \<open>analyzeMetrics(metrics, context = {})\<close>. A call with one argument is
  \<open>analyzeMetrics ns metrics []\<close>.
\<close>

definition analyzeMetrics :: "(real \<Rightarrow> string) \<Rightarrow> jsobj \<Rightarrow> jsobj \<Rightarrow> analysis" where
  "analyzeMetrics ns metrics context =
     final_status
       (roas_analysis ns metrics
         (frequency_analysis ns metrics
           (cpm_analysis ns metrics
             (ctr_analysis ns metrics context initial_analysis))))"

section \<open>Approvals and the tool handler\<close>

text \<open>
  The server keeps two pieces of state: the object \<open>campaignState\<close>, which is read
  from and written to a file, and the map \<open>pendingApprovals\<close>, which lives in
  memory only. Of the payload of a \<open>PAUSE_CAMPAIGNS\<close> approval the model keeps what
  the handler reads: the id and the name of each campaign and the estimated savings.
\<close>

record campaign_ref =
  cid :: string
  cname :: string

record approval_data =
  campaigns :: "campaign_ref list"
  estimatedSavings :: string

record approval =
  action :: string
  data :: approval_data
  createdAt :: int
  expiresAt :: int
  status :: string
  processedAt :: "int option"

record server_state =
  campaignState :: campaign_state
  pendingApprovals :: "string \<rightharpoonup> approval"

text \<open>
  What a call meets outside the program: the outcome of reading the state file
  (\<open>None\<close> when reading or parsing fails), the outcome of writing it (the message of
  the error when it fails), the outcome of pausing each campaign through the Ads API
  (the message of the error when it fails), the clock (the time in milliseconds that
  the \<open>n\<close>-th reading of a call returns), the text \<open>toISOString\<close> gives for a time,
  and the text of the \<open>stack\<close> property of an error.
\<close>

record env =
  read_state :: "campaign_state option"
  write_state :: "campaign_state \<Rightarrow> string option"
  update_campaign :: "string \<Rightarrow> string option"
  clock :: "nat \<Rightarrow> int"
  toISOString :: "int \<Rightarrow> string"
  stack :: "string \<Rightarrow> string"

definition int_to_string :: "int \<Rightarrow> string" where
  "int_to_string i = (if i < 0 then ''-'' @ dec (nat (- i)) else dec (nat i))"

definition loadState :: "env \<Rightarrow> server_state \<Rightarrow> server_state" where
  "loadState e st =
     (case read_state e of
        Some cs \<Rightarrow> st\<lparr>campaignState := cs\<rparr>
      | None \<Rightarrow> st\<lparr>campaignState := Map.empty\<rparr>)"

text \<open>\<open>saveState\<close> awaits the write and catches nothing: \<open>Some msg\<close> is the error it throws.\<close>

definition saveState :: "env \<Rightarrow> server_state \<Rightarrow> string option" where
  "saveState e st = write_state e (campaignState st)"

text \<open>
  \<open>createApprovalRequest\<close> reads the clock three times: for the id, for the expiry
  and for \<open>createdAt\<close>. It returns the id, the expiry as text, the action and the
  data, and the state with the new approval.
\<close>

definition createApprovalRequest ::
  "env \<Rightarrow> string \<Rightarrow> approval_data \<Rightarrow> server_state
     \<Rightarrow> (string \<times> string \<times> string \<times> approval_data) \<times> server_state" where
  "createApprovalRequest e act d st =
     (let approvalId = ''APR'' @ int_to_string (clock e 0);
          expires = clock e 1 + 2 * 60 * 60 * 1000
      in ((approvalId, toISOString e expires, act, d),
          st\<lparr>pendingApprovals := (pendingApprovals st)(approvalId \<mapsto>
               \<lparr>action = act, data = d, createdAt = clock e 2, expiresAt = expires,
                status = ''pending'', processedAt = None\<rparr>)\<rparr>))"

text \<open>\<open>toUpperCase\<close> on the letters of ASCII.\<close>

definition toUpperCase :: "string \<Rightarrow> string" where
  "toUpperCase s =
     map (\<lambda>c. case map_of (zip ''abcdefghijklmnopqrstuvwxyz'' ''ABCDEFGHIJKLMNOPQRSTUVWXYZ'') c of
                None \<Rightarrow> c | Some u \<Rightarrow> u) s"

definition sym_check :: string where
  "sym_check = [CHR 0xE2, CHR 0x9C, CHR 0x85]"
definition sym_cross :: string where
  "sym_cross = [CHR 0xE2, CHR 0x9D, CHR 0x8C]"

text \<open>One round of the loop over the campaigns of a \<open>PAUSE_CAMPAIGNS\<close> approval.\<close>

definition pause_result :: "env \<Rightarrow> campaign_ref \<Rightarrow> jsval" where
  "pause_result e c =
     (case update_campaign e (cid c) of
        None \<Rightarrow>
          JObj [(''campaignId'', JStr (cid c)), (''campaignName'', JStr (cname c)),
                (''status'', JStr ''PAUSED''), (''success'', JBool True)]
      | Some msg \<Rightarrow>
          JObj [(''campaignId'', JStr (cid c)), (''campaignName'', JStr (cname c)),
                (''status'', JStr ''FAILED''), (''success'', JBool False),
                (''error'', JStr msg)])"

definition succeeded :: "jsval \<Rightarrow> bool" where
  "succeeded r = (case r of JObj kvs \<Rightarrow> truthy (get_prop kvs ''success'') | _ \<Rightarrow> False)"

text \<open>
  The \<open>try\<close> block of the handler of \<open>process_approval\<close>. \<open>Inl msg\<close> is the error it
  throws, \<open>Inr\<close> the response object it returns (the value whose JSON text the
  handler wraps) with the state after it. An argument that is absent is \<open>None\<close>.
\<close>

definition process_approval_try ::
  "env \<Rightarrow> string option \<Rightarrow> string option \<Rightarrow> server_state \<Rightarrow> string + jsval \<times> server_state" where
  "process_approval_try e approvalId action_arg st =
     (case (approvalId, map_option toUpperCase action_arg) of
        (Some aid, Some act) \<Rightarrow>
          if aid = [] \<or> act = [] then Inl ''Approval ID and action are required''
          else
            (case pendingApprovals st aid of
               None \<Rightarrow>
                 Inr (JObj [(''error'', JStr ''Approval not found or expired''),
                            (''approvalId'', JStr aid)], st)
             | Some approval \<Rightarrow>
                 if status approval \<noteq> ''pending'' then
                   Inr (JObj [(''error'', JStr ''Approval already processed''),
                              (''approvalId'', JStr aid),
                              (''status'', JStr (status approval))], st)
                 else if expiresAt approval < clock e 0 then
                   Inr (JObj [(''error'', JStr ''Approval expired''),
                              (''approvalId'', JStr aid),
                              (''expiredAt'', JStr (toISOString e (expiresAt approval)))],
                        st\<lparr>pendingApprovals := (pendingApprovals st)(aid \<mapsto>
                             approval\<lparr>status := ''expired''\<rparr>)\<rparr>)
                 else
                   (let response =
                          [(''approvalId'', JStr aid), (''action'', JStr act),
                           (''processedAt'', JStr (toISOString e (clock e 1)))]
                    in if act = ''APPROVE'' then
                         (let results =
                                (if action approval = ''PAUSE_CAMPAIGNS''
                                 then map (pause_result e) (campaigns (data approval))
                                 else []);
                              extra =
                                (if action approval = ''PAUSE_CAMPAIGNS''
                                 then
                                   [(''summary'',
                                     JObj [(''totalRequested'',
                                              JNum (Fin (real (length (campaigns (data approval)))))),
                                           (''successfullyPaused'',
                                              JNum (Fin (real (length (filter succeeded results))))),
                                           (''failed'',
                                              JNum (Fin (real (length
                                                (filter (\<lambda>r. \<not> succeeded r) results))))),
                                           (''estimatedSavings'',
                                              JStr (estimatedSavings (data approval)))]),
                                    (''whatsappNotification'',
                                     JObj [(''type'', JStr ''action_completed''),
                                           (''priority'', JStr PRIORITY_INFO),
                                           (''message'', JStr
                                              (sym_check @ '' *Campaigns Paused*''
                                               @ [CHR 0x0A, CHR 0x0A]
                                               @ ''Successfully paused ''
                                               @ dec (length (filter succeeded results))
                                               @ '' of ''
                                               @ dec (length (campaigns (data approval)))
                                               @ '' campaigns.'' @ [CHR 0x0A, CHR 0x0A]
                                               @ ''Estimated savings: ''
                                               @ estimatedSavings (data approval) @ ''/day''))])]
                                 else [])
                          in Inr (JObj (response @ [(''results'', JArr results)] @ extra),
                                  st\<lparr>pendingApprovals := (pendingApprovals st)(aid \<mapsto>
                                       approval\<lparr>status := ''approved'',
                                                processedAt := Some (clock e 2)\<rparr>)\<rparr>))
                       else if act = ''REJECT'' then
                         Inr (JObj (response @ [(''results'', JArr [])] @
                                [(''whatsappNotification'',
                                  JObj [(''type'', JStr ''action_cancelled''),
                                        (''priority'', JStr PRIORITY_INFO),
                                        (''message'', JStr
                                           (sym_cross @ '' *Action Cancelled*''
                                            @ [CHR 0x0A, CHR 0x0A]
                                            @ ''Approval '' @ aid
                                            @ '' has been rejected. No changes were made.''))])]),
                              st\<lparr>pendingApprovals := (pendingApprovals st)(aid \<mapsto>
                                   approval\<lparr>status := ''rejected'',
                                            processedAt := Some (clock e 2)\<rparr>)\<rparr>)
                       else Inr (JObj (response @ [(''results'', JArr [])]), st)))
      | _ \<Rightarrow> Inl ''Approval ID and action are required'')"

text \<open>
  The handler: \<open>loadState\<close>, then the \<open>try\<close> block, whose error the \<open>catch\<close> block
  turns into an error payload, then \<open>saveState\<close> in the \<open>finally\<close> block. An error
  thrown in the \<open>finally\<close> block replaces the value the handler was about to return:
  the result \<open>Inl msg\<close> is a call that ends with that error, \<open>Inr p\<close> one that
  returns the payload \<open>p\<close>.
\<close>

definition process_approval ::
  "env \<Rightarrow> string option \<Rightarrow> string option \<Rightarrow> server_state \<Rightarrow> (string + jsval) \<times> server_state" where
  "process_approval e approvalId action_arg st =
     (let st1 = loadState e st;
          caught =
            (case process_approval_try e approvalId action_arg st1 of
               Inl msg \<Rightarrow>
                 (JObj [(''error'', JStr msg), (''tool'', JStr ''process_approval''),
                        (''stack'', JStr (stack e msg))], st1)
             | Inr r \<Rightarrow> r)
      in case saveState e (snd caught) of
           Some msg \<Rightarrow> (Inl msg, snd caught)
         | None \<Rightarrow> (Inr (fst caught), snd caught))"

section \<open>Notions used by the properties\<close>

text \<open>The relational operator \<open>>=\<close> on numbers.\<close>

definition js_ge :: "jsnum \<Rightarrow> jsnum \<Rightarrow> bool" where
  "js_ge x y = (x \<noteq> NaN \<and> y \<noteq> NaN \<and> \<not> js_lt x y)"

text \<open>
  The status as a function of the score alone: the five bands the final override
  and the default status together suggest.
\<close>

definition status_of_score :: "int \<Rightarrow> string" where
  "status_of_score sc =
     (if sc < 40 then ''critical''
      else if sc < 60 then ''poor''
      else if sc < 80 then ''needs_improvement''
      else if sc < 95 then ''optimal''
      else ''excellent'')"

text \<open>
  A printer for whole numbers, which \<open>Number::toString\<close> agrees with below
  \<open>10^21\<close>. The examples print whole numbers only.
\<close>

definition print_whole :: "real \<Rightarrow> string" where
  "print_whole r = int_to_string \<lfloor>r\<rfloor>"

text \<open>
  An example for the approval handler: an approval to pause two campaigns, created
  with the clock at 1000 and therefore expiring at 7201000, and two environments for
  a later call, both with the clock at 7201001 and a state file that cannot be read;
  in the first the file can be written, in the second it cannot.
\<close>

definition example_data :: approval_data where
  "example_data =
     \<lparr>campaigns = [\<lparr>cid = ''120001'', cname = ''Spring''\<rparr>,
                   \<lparr>cid = ''120002'', cname = ''Summer''\<rparr>],
      estimatedSavings = ''35.00''\<rparr>"

definition example_env_create :: env where
  "example_env_create =
     \<lparr>read_state = None, write_state = (\<lambda>_. None), update_campaign = (\<lambda>_. None),
      clock = (\<lambda>_. 1000), toISOString = (\<lambda>_. ''1970-01-01T02:00:01.000Z''),
      stack = (\<lambda>_. [])\<rparr>"

definition example_state :: server_state where
  "example_state =
     snd (createApprovalRequest example_env_create ''PAUSE_CAMPAIGNS'' example_data
            \<lparr>campaignState = Map.empty, pendingApprovals = Map.empty\<rparr>)"

definition example_env :: env where
  "example_env = example_env_create\<lparr>clock := (\<lambda>_. 7201001)\<rparr>"

definition example_env_readonly :: env where
  "example_env_readonly =
     example_env\<lparr>write_state := (\<lambda>_. Some ''EROFS: read-only file system'')\<rparr>"

section \<open>Auxiliary facts\<close>

lemma dec_small: "n < 10 \<Longrightarrow> dec n = [digit_char n]"
  by (simp add: dec.simps)

lemma dec_big: "10 \<le> n \<Longrightarrow> dec n = dec (n div 10) @ [digit_char (n mod 10)]"
  by (subst dec.simps) simp

lemmas eval_text = toFixed_def dec_small dec_big digit_char_def int_to_string_def

lemmas eval_parse =
  parseFloat_def parseFloat_str_def exponent_part_def digits_val_def digit_val_def
  is_digit_def ws1_def ws2_def ws3_def

lemmas eval_analysis =
  analyzeMetrics_def ctr_analysis_def cpm_analysis_def frequency_analysis_def
  roas_analysis_def final_status_def initial_analysis_def num_field_def js_or_def
  get_prop_def js_gt_def first_value_def THRESHOLDS_defs PRIORITY_defs

subsection \<open>Rounding and the percentage change\<close>

lemma round_to_exact: "round_to exact_rounding = Fin"
  by (simp add: exact_rounding_def Abs_rounding_inverse is_rounding_def)

lemma round_to_not_NaN: "round_to rd x \<noteq> NaN"
  using round_to [of rd] by (simp add: is_rounding_def)

lemma round_to_mono: "x \<le> y \<Longrightarrow> \<not> js_lt (round_to rd y) (round_to rd x)"
  using round_to [of rd] by (simp add: is_rounding_def)

lemma round_to_fixed:
  "\<bar>k\<bar> \<le> 2 ^ 53 \<Longrightarrow> j \<le> 1022 \<Longrightarrow>
   round_to rd (real_of_int k / 2 ^ j) = Fin (real_of_int k / 2 ^ j)"
  using round_to [of rd] by (simp add: is_rounding_def)

lemma round_to_zero: "round_to rd 0 = Fin 0"
  using round_to_fixed [of 0 0 rd] by simp

lemma round_to_ge:
  assumes "\<bar>k\<bar> \<le> 2 ^ 53" and "j \<le> 1022" and "real_of_int k / 2 ^ j \<le> x"
  shows "round_to rd x = PosInf \<or> (\<exists>r. round_to rd x = Fin r \<and> real_of_int k / 2 ^ j \<le> r)"
  using round_to_mono [OF assms(3), of rd] round_to_fixed [OF assms(1,2), of rd]
    round_to_not_NaN [of rd x]
  by (cases "round_to rd x") auto

lemma round_to_le:
  assumes "\<bar>k\<bar> \<le> 2 ^ 53" and "j \<le> 1022" and "x \<le> real_of_int k / 2 ^ j"
  shows "round_to rd x = NegInf \<or> (\<exists>r. round_to rd x = Fin r \<and> r \<le> real_of_int k / 2 ^ j)"
  using round_to_mono [OF assms(3), of rd] round_to_fixed [OF assms(1,2), of rd]
    round_to_not_NaN [of rd x]
  by (cases "round_to rd x") auto

lemma round_to_between:
  assumes "\<bar>k\<bar> \<le> 2 ^ 53" and "j \<le> 1022" and "\<bar>k'\<bar> \<le> 2 ^ 53" and "j' \<le> 1022"
    and "real_of_int k / 2 ^ j \<le> x" and "x \<le> real_of_int k' / 2 ^ j'"
  shows "\<exists>r. round_to rd x = Fin r \<and> real_of_int k / 2 ^ j \<le> r \<and> r \<le> real_of_int k' / 2 ^ j'"
  using round_to_ge [OF assms(1,2,5), of rd] round_to_le [OF assms(3,4,6), of rd]
  by auto

lemma pct_change_same: "pct_change rd c c = Fin 0 \<or> pct_change rd c c = NaN"
  by (cases c) (simp_all add: pct_change_def rounded_def round_to_zero)

lemma pct_change_same_lt: "\<not> js_lt (pct_change rd c c) (Fin (- 30))"
  using pct_change_same [of rd c] by auto

lemma pct_change_same_gt: "\<not> js_gt (pct_change rd c c) (Fin 50)"
  using pct_change_same [of rd c] by (auto simp: js_gt_def)

lemma pct_change_zero_prior:
  assumes "js_gt c (Fin 1)"
  shows "pct_change rd c (Fin 0) = PosInf"
proof (cases c)
  case (Fin r)
  with assms have "real_of_int 1 / 2 ^ 0 \<le> r" by (simp add: js_gt_def)
  from round_to_ge [OF _ _ this, of rd]
  have "round_to rd r = PosInf \<or> (\<exists>r'. round_to rd r = Fin r' \<and> 1 \<le> r')" by simp
  with Fin show ?thesis
    by (auto simp add: pct_change_def rounded_def)
next
  case PosInf
  then show ?thesis by (simp add: pct_change_def rounded_def)
next
  case NegInf
  with assms show ?thesis by (simp add: js_gt_def)
next
  case NaN
  with assms show ?thesis by (simp add: js_gt_def)
qed

lemma pct_change_zero_zero: "pct_change rd (Fin 0) (Fin 0) = NaN"
  by (simp add: pct_change_def rounded_def round_to_zero)

text \<open>
  From a prior value of 2 to a current value within a millionth of 1.3 the change is
  -35 percent up to rounding, whatever the rounding.
\<close>

lemma pct_change_near_35:
  assumes "\<bar>c - 1.3\<bar> \<le> 1 / 10 ^ 6"
  shows "\<exists>r. pct_change rd (Fin c) (Fin 2) = Fin r \<and> - 35.001 < r \<and> r < - 34.999"
proof -
  from assms have c: "c - 1.3 \<le> 1 / 10 ^ 6" "- (c - 1.3) \<le> 1 / 10 ^ 6"
    by (simp_all only: abs_le_iff)
  then have "real_of_int (- 734005) / 2 ^ 20 \<le> c - 2"
    and "c - 2 \<le> real_of_int (- 734002) / 2 ^ 20"
    by simp_all
  from round_to_between [OF _ _ _ _ this, of rd]
  obtain r1 where r1: "round_to rd (c - 2) = Fin r1"
    and b1: "real_of_int (- 734005) / 2 ^ 20 \<le> r1" "r1 \<le> real_of_int (- 734002) / 2 ^ 20"
    by auto
  from b1 have "real_of_int (- 734005) / 2 ^ 21 \<le> r1 / 2"
    and "r1 / 2 \<le> real_of_int (- 734002) / 2 ^ 21"
    by simp_all
  from round_to_between [OF _ _ _ _ this, of rd]
  obtain r2 where r2: "round_to rd (r1 / 2) = Fin r2"
    and b2: "real_of_int (- 734005) / 2 ^ 21 \<le> r2" "r2 \<le> real_of_int (- 734002) / 2 ^ 21"
    by auto
  from b2 have "real_of_int (- 73400500) / 2 ^ 21 \<le> r2 * 100"
    and "r2 * 100 \<le> real_of_int (- 73400200) / 2 ^ 21"
    by simp_all
  from round_to_between [OF _ _ _ _ this, of rd]
  obtain r3 where r3: "round_to rd (r2 * 100) = Fin r3"
    and b3: "real_of_int (- 73400500) / 2 ^ 21 \<le> r3" "r3 \<le> real_of_int (- 73400200) / 2 ^ 21"
    by auto
  have "pct_change rd (Fin c) (Fin 2) = Fin r3"
    by (simp add: pct_change_def rounded_def r1 r2 r3)
  moreover from b3 have "- 35.001 < r3" and "r3 < - 34.999"
    by simp_all
  ultimately show ?thesis by blast
qed

text \<open>Two changes that no rounding touches: every intermediate result is a double.\<close>

lemma pct_change_minus_25: "pct_change rd (Fin 0.75) (Fin 1) = Fin (- 25)"
  using round_to_fixed [of "- 1" 2 rd] round_to_fixed [of "- 25" 0 rd]
  by (simp add: pct_change_def rounded_def)

lemma pct_change_minus_75: "pct_change rd (Fin 0.5) (Fin 2) = Fin (- 75)"
  using round_to_fixed [of "- 3" 1 rd] round_to_fixed [of "- 3" 2 rd]
    round_to_fixed [of "- 75" 0 rd]
  by (simp add: pct_change_def rounded_def)

lemma js_gt_trans_Fin: "js_gt c (Fin a) \<Longrightarrow> b \<le> a \<Longrightarrow> js_gt c (Fin b)"
  by (cases c) (simp_all add: js_gt_def)

subsection \<open>What a call of the change detector stores and returns\<close>

lemma detect_stored:
  "\<exists>e. snd (detectSignificantChanges rd ns now campaignId m cs) campaignId = Some e
       \<and> ctr e = ctr m \<and> cpm e = cpm m \<and> spend e = spend m \<and> frequency e = frequency m"
  by (cases "cs campaignId") (simp_all add: detectSignificantChanges_def Let_def)

lemma detect_same:
  assumes "cs campaignId = Some e" and "ctr e = ctr m" and "cpm e = cpm m"
  shows "fst (detectSignificantChanges rd ns now campaignId m cs) = None"
  using assms pct_change_same_lt [of rd "ctr m"] pct_change_same_gt [of rd "ctr m"]
    pct_change_same_gt [of rd "cpm m"]
  by (simp add: detectSignificantChanges_def Let_def)

lemma emitted_crash:
  "emitted ''CTR_CRASH'' (fst (detectSignificantChanges rd ns now campaignId m cs)) =
     (case cs campaignId of
        None \<Rightarrow> False
      | Some previous \<Rightarrow>
          js_lt (pct_change rd (ctr m) (ctr previous)) (Fin (- 30)) \<and> js_lt (ctr m) (Fin 0.8))"
  by (auto simp add: detectSignificantChanges_def Let_def emitted_def THRESHOLDS_defs
      split: option.splits)

lemma emitted_spike:
  "emitted ''CPM_SPIKE'' (fst (detectSignificantChanges rd ns now campaignId m cs)) =
     (case cs campaignId of
        None \<Rightarrow> False
      | Some previous \<Rightarrow>
          js_gt (pct_change rd (cpm m) (cpm previous)) (Fin 50) \<and> js_gt (cpm m) (Fin 50))"
  by (auto simp add: detectSignificantChanges_def Let_def emitted_def THRESHOLDS_defs
      split: option.splits)

lemma emitted_boost:
  "emitted ''PERFORMANCE_BOOST'' (fst (detectSignificantChanges rd ns now campaignId m cs)) =
     (case cs campaignId of
        None \<Rightarrow> False
      | Some previous \<Rightarrow>
          js_gt (pct_change rd (ctr m) (ctr previous)) (Fin 50) \<and> js_gt (ctr m) (Fin 1.5))"
  by (auto simp add: detectSignificantChanges_def Let_def emitted_def THRESHOLDS_defs
      split: option.splits)

lemma detect_null_iff:
  "fst (detectSignificantChanges rd ns now campaignId m cs) = None \<longleftrightarrow>
     \<not> emitted ''CTR_CRASH'' (fst (detectSignificantChanges rd ns now campaignId m cs)) \<and>
     \<not> emitted ''CPM_SPIKE'' (fst (detectSignificantChanges rd ns now campaignId m cs)) \<and>
     \<not> emitted ''PERFORMANCE_BOOST''
         (fst (detectSignificantChanges rd ns now campaignId m cs))"
  by (auto simp add: detectSignificantChanges_def Let_def emitted_def THRESHOLDS_defs
      split: option.splits)

subsection \<open>Score and status through the parts of the analysis\<close>

lemma status_cpm: "analysis.status (cpm_analysis ns m a) = analysis.status a"
  by (simp add: cpm_analysis_def Let_def)

lemma status_frequency: "analysis.status (frequency_analysis ns m a) = analysis.status a"
  by (simp add: frequency_analysis_def Let_def)

lemma status_roas: "analysis.status (roas_analysis ns m a) = analysis.status a"
  by (simp add: roas_analysis_def Let_def)

lemma score_cpm: "score (cpm_analysis ns m a) \<le> score a"
  by (simp add: cpm_analysis_def Let_def)

lemma score_frequency: "score (frequency_analysis ns m a) \<le> score a"
  by (simp add: frequency_analysis_def Let_def)

lemma score_roas: "score (roas_analysis ns m a) \<le> score a"
  by (simp add: roas_analysis_def Let_def)

lemma score_final: "score (final_status a) = score a"
  by (simp add: final_status_def)

lemma status_final:
  "analysis.status (final_status a) =
     (if score a < 40 then ''critical''
      else if score a < 60 then ''poor''
      else if score a < 80 then ''needs_improvement''
      else if 95 \<le> score a then ''excellent''
      else analysis.status a)"
  by (simp add: final_status_def)

lemma ctr_cases:
  "(analysis.status (ctr_analysis ns m c initial_analysis) = ''critical'' \<and>
      score (ctr_analysis ns m c initial_analysis) = 60) \<or>
   (analysis.status (ctr_analysis ns m c initial_analysis) = ''needs_improvement'' \<and>
      score (ctr_analysis ns m c initial_analysis) = 75) \<or>
   (analysis.status (ctr_analysis ns m c initial_analysis) = ''optimal'' \<and>
      score (ctr_analysis ns m c initial_analysis) = 100)"
  by (simp add: ctr_analysis_def Let_def initial_analysis_def)

lemma ctr_status:
  "analysis.status (ctr_analysis ns m c initial_analysis) =
     (if js_lt (num_field ns (get_prop m ''ctr'')) (Fin 0.5) then ''critical''
      else if js_lt (num_field ns (get_prop m ''ctr'')) (Fin 0.8) then ''needs_improvement''
      else ''optimal'')"
  by (simp add: ctr_analysis_def Let_def initial_analysis_def THRESHOLDS_defs)

lemma score_le_ctr:
  "score (analyzeMetrics ns m c) \<le> score (ctr_analysis ns m c initial_analysis)"
  unfolding analyzeMetrics_def score_final
  by (rule order_trans [OF score_roas], rule order_trans [OF score_frequency], rule score_cpm)

lemma status_analyze:
  "analysis.status (analyzeMetrics ns m c) =
     (if score (analyzeMetrics ns m c) < 40 then ''critical''
      else if score (analyzeMetrics ns m c) < 60 then ''poor''
      else if score (analyzeMetrics ns m c) < 80 then ''needs_improvement''
      else if 95 \<le> score (analyzeMetrics ns m c) then ''excellent''
      else analysis.status (ctr_analysis ns m c initial_analysis))"
  by (simp add: analyzeMetrics_def status_final score_final status_roas status_frequency
      status_cpm)

section \<open>Properties of the metric analysis\<close>

text \<open>
  C1. The status \<open>analyzeMetrics\<close> returns is decided last and by the accumulated score:
  \<open>critical\<close> below 40, else \<open>poor\<close> below 60, else \<open>needs_improvement\<close> below 80,
  else \<open>excellent\<close> from 95 on, and otherwise the status the CTR part left, which is
  \<open>critical\<close> or \<open>needs_improvement\<close> when one of its two low branches ran and the
  default \<open>optimal\<close> when none did. The parts after the CTR part change the score only.
\<close>

theorem analyzeMetrics_final_override:
  "analysis.status (analyzeMetrics ns metrics context) =
     (if score (analyzeMetrics ns metrics context) < 40 then ''critical''
      else if score (analyzeMetrics ns metrics context) < 60 then ''poor''
      else if score (analyzeMetrics ns metrics context) < 80 then ''needs_improvement''
      else if 95 \<le> score (analyzeMetrics ns metrics context) then ''excellent''
      else analysis.status (ctr_analysis ns metrics context initial_analysis))
   \<and> score (analyzeMetrics ns metrics context) =
       score (roas_analysis ns metrics (frequency_analysis ns metrics
         (cpm_analysis ns metrics (ctr_analysis ns metrics context initial_analysis))))
   \<and> analysis.status (ctr_analysis ns metrics context initial_analysis) =
       (if js_lt (num_field ns (get_prop metrics ''ctr'')) (Fin 0.5) then ''critical''
        else if js_lt (num_field ns (get_prop metrics ''ctr'')) (Fin 0.8)
          then ''needs_improvement''
        else ''optimal'')"
proof (intro conjI)
  show "analysis.status (analyzeMetrics ns metrics context) =
     (if score (analyzeMetrics ns metrics context) < 40 then ''critical''
      else if score (analyzeMetrics ns metrics context) < 60 then ''poor''
      else if score (analyzeMetrics ns metrics context) < 80 then ''needs_improvement''
      else if 95 \<le> score (analyzeMetrics ns metrics context) then ''excellent''
      else analysis.status (ctr_analysis ns metrics context initial_analysis))"
    by (rule status_analyze)
  show "score (analyzeMetrics ns metrics context) =
       score (roas_analysis ns metrics (frequency_analysis ns metrics
         (cpm_analysis ns metrics (ctr_analysis ns metrics context initial_analysis))))"
    by (simp add: analyzeMetrics_def score_final)
  show "analysis.status (ctr_analysis ns metrics context initial_analysis) =
       (if js_lt (num_field ns (get_prop metrics ''ctr'')) (Fin 0.5) then ''critical''
        else if js_lt (num_field ns (get_prop metrics ''ctr'')) (Fin 0.8)
          then ''needs_improvement''
        else ''optimal'')"
    by (rule ctr_status)
qed

text \<open>
  C2. For the metrics \<open>{ctr: 0.4, spend: 60}\<close> and no context the analysis has the one
  issue \<open>Critical CTR: 0.40%\<close>, the score 60, the status \<open>needs_improvement\<close>, and
  exactly one notification: priority \<open>critical\<close>, \<open>requiresApproval\<close> true, suggested
  action \<open>PAUSE_CAMPAIGN\<close>. The status comes from the final override: the CTR part
  had left \<open>critical\<close>.
\<close>

theorem analyzeMetrics_low_ctr_example:
  "issues (analyzeMetrics ns [(''ctr'', JNum (Fin 0.4)), (''spend'', JNum (Fin 60))] []) =
     [''Critical CTR: 0.40%'']
   \<and> score (analyzeMetrics ns [(''ctr'', JNum (Fin 0.4)), (''spend'', JNum (Fin 60))] []) = 60
   \<and> analysis.status
       (analyzeMetrics ns [(''ctr'', JNum (Fin 0.4)), (''spend'', JNum (Fin 60))] []) =
       ''needs_improvement''
   \<and> notifications
       (analyzeMetrics ns [(''ctr'', JNum (Fin 0.4)), (''spend'', JNum (Fin 60))] []) =
       [\<lparr>priority = ''critical'',
         message = ''Critical performance alert: CTR 0.40% with $'' @ ns 60 @ '' spent'',
         requiresApproval = Some True,
         suggestedAction = ''PAUSE_CAMPAIGN'',
         suggestedValue = None\<rparr>]
   \<and> analysis.status
       (ctr_analysis ns [(''ctr'', JNum (Fin 0.4)), (''spend'', JNum (Fin 60))] []
          initial_analysis) = ''critical''"
  by (simp add: eval_analysis eval_parse eval_text)

text \<open>
  C9. The status is a function of the final score alone: \<open>critical\<close> exactly below
  40, \<open>poor\<close> exactly from 40 to below 60, \<open>needs_improvement\<close> exactly from 60 to
  below 80, \<open>optimal\<close> exactly from 80 to below 95 and \<open>excellent\<close> exactly from 95
  on. A status the CTR part sets never survives: whenever that part leaves a status
  other than \<open>optimal\<close> it has taken at least 25 points, and the final score is below 80.
\<close>

theorem analyzeMetrics_status_of_score:
  "analysis.status (analyzeMetrics ns metrics context) =
     status_of_score (score (analyzeMetrics ns metrics context))
   \<and> (analysis.status (analyzeMetrics ns metrics context) = ''critical''
        \<longleftrightarrow> score (analyzeMetrics ns metrics context) < 40)
   \<and> (analysis.status (analyzeMetrics ns metrics context) = ''poor''
        \<longleftrightarrow> 40 \<le> score (analyzeMetrics ns metrics context)
            \<and> score (analyzeMetrics ns metrics context) < 60)
   \<and> (analysis.status (analyzeMetrics ns metrics context) = ''needs_improvement''
        \<longleftrightarrow> 60 \<le> score (analyzeMetrics ns metrics context)
            \<and> score (analyzeMetrics ns metrics context) < 80)
   \<and> (analysis.status (analyzeMetrics ns metrics context) = ''optimal''
        \<longleftrightarrow> 80 \<le> score (analyzeMetrics ns metrics context)
            \<and> score (analyzeMetrics ns metrics context) < 95)
   \<and> (analysis.status (analyzeMetrics ns metrics context) = ''excellent''
        \<longleftrightarrow> 95 \<le> score (analyzeMetrics ns metrics context))
   \<and> (analysis.status (ctr_analysis ns metrics context initial_analysis) = ''optimal''
        \<or> score (ctr_analysis ns metrics context initial_analysis) \<le> 75
           \<and> score (analyzeMetrics ns metrics context) < 80)"
proof -
  have eq: "analysis.status (analyzeMetrics ns metrics context) =
      status_of_score (score (analyzeMetrics ns metrics context))"
    using ctr_cases [of ns metrics "context"] score_le_ctr [of ns metrics "context"]
    by (auto simp add: status_analyze status_of_score_def)
  have last: "analysis.status (ctr_analysis ns metrics context initial_analysis) = ''optimal''
        \<or> score (ctr_analysis ns metrics context initial_analysis) \<le> 75
           \<and> score (analyzeMetrics ns metrics context) < 80"
    using ctr_cases [of ns metrics "context"] score_le_ctr [of ns metrics "context"] by auto
  show ?thesis
    unfolding eq using last by (simp add: status_of_score_def)
qed

section \<open>Properties of the change detector\<close>

text \<open>
  C3. Change detection is idempotent: whatever the state was, a call with the metrics
  \<open>m\<close> stores \<open>m\<close> for the campaign (as the baseline of a first observation or as an
  update), and a second call with the same metrics returns \<open>null\<close>: it emits no
  \<open>CTR_CRASH\<close>, no \<open>CPM_SPIKE\<close> and no \<open>PERFORMANCE_BOOST\<close> event.
\<close>

theorem detectSignificantChanges_idempotent:
  "fst (detectSignificantChanges rd ns now2 campaignId m
          (snd (detectSignificantChanges rd ns now1 campaignId m cs))) = None
   \<and> \<not> emitted ''CTR_CRASH'' (fst (detectSignificantChanges rd ns now2 campaignId m
          (snd (detectSignificantChanges rd ns now1 campaignId m cs))))
   \<and> \<not> emitted ''CPM_SPIKE'' (fst (detectSignificantChanges rd ns now2 campaignId m
          (snd (detectSignificantChanges rd ns now1 campaignId m cs))))
   \<and> \<not> emitted ''PERFORMANCE_BOOST'' (fst (detectSignificantChanges rd ns now2 campaignId m
          (snd (detectSignificantChanges rd ns now1 campaignId m cs))))"
proof -
  obtain e where
    "snd (detectSignificantChanges rd ns now1 campaignId m cs) campaignId = Some e"
    and "ctr e = ctr m" and "cpm e = cpm m"
    using detect_stored by blast
  then have "fst (detectSignificantChanges rd ns now2 campaignId m
          (snd (detectSignificantChanges rd ns now1 campaignId m cs))) = None"
    by (rule detect_same)
  then show ?thesis by (simp add: emitted_def)
qed

text \<open>
  C7. A \<open>CTR_CRASH\<close> event is emitted exactly when there is a prior state, the CTR
  change the function computes is below -30 and the current CTR is below 0.8, both at
  once. In particular, from a prior CTR of 2.0 to a current CTR of 1.3 (the decimal or
  the double next to it) with the CPM unchanged the change is -35 percent up to
  rounding, below -30, but 1.3 is not below 0.8: no event fires and the call returns
  \<open>null\<close>. Likewise, from 1 to 0.75 the current CTR is below 0.8 but the change is
  -25: no \<open>CTR_CRASH\<close>. From 2 to 0.5 both hold, the change being -75, and the event
  is emitted. All this holds for every rounding of the arithmetic.
\<close>

theorem ctr_crash_needs_both_conditions:
  "emitted ''CTR_CRASH'' (fst (detectSignificantChanges rd ns now campaignId m cs)) =
     (case cs campaignId of
        None \<Rightarrow> False
      | Some previous \<Rightarrow>
          js_lt (pct_change rd (ctr m) (ctr previous)) (Fin (- 30)) \<and> js_lt (ctr m) (Fin 0.8))
   \<and> (cs campaignId = Some prior \<and> ctr prior = Fin 2.0 \<and> ctr m = Fin c
        \<and> \<bar>c - 1.3\<bar> \<le> 1 / 10 ^ 6 \<and> cpm m = cpm prior \<longrightarrow>
       (\<exists>r. pct_change rd (ctr m) (ctr prior) = Fin r \<and> - 35.001 < r \<and> r < - 34.999)
       \<and> js_lt (pct_change rd (ctr m) (ctr prior)) (Fin (- 30))
       \<and> \<not> js_lt (ctr m) (Fin 0.8)
       \<and> \<not> emitted ''CTR_CRASH''
             (fst (detectSignificantChanges rd ns now campaignId m cs))
       \<and> fst (detectSignificantChanges rd ns now campaignId m cs) = None)
   \<and> (cs campaignId = Some prior \<and> ctr prior = Fin 1 \<and> ctr m = Fin 0.75 \<longrightarrow>
       pct_change rd (ctr m) (ctr prior) = Fin (- 25)
       \<and> js_lt (ctr m) (Fin 0.8)
       \<and> \<not> emitted ''CTR_CRASH''
             (fst (detectSignificantChanges rd ns now campaignId m cs)))
   \<and> (cs campaignId = Some prior \<and> ctr prior = Fin 2 \<and> ctr m = Fin 0.5 \<longrightarrow>
       pct_change rd (ctr m) (ctr prior) = Fin (- 75)
       \<and> js_lt (ctr m) (Fin 0.8)
       \<and> emitted ''CTR_CRASH''
             (fst (detectSignificantChanges rd ns now campaignId m cs)))"
proof (intro conjI impI)
  show "emitted ''CTR_CRASH'' (fst (detectSignificantChanges rd ns now campaignId m cs)) =
     (case cs campaignId of
        None \<Rightarrow> False
      | Some previous \<Rightarrow>
          js_lt (pct_change rd (ctr m) (ctr previous)) (Fin (- 30)) \<and> js_lt (ctr m) (Fin 0.8))"
    by (rule emitted_crash)
next
  assume h: "cs campaignId = Some prior \<and> ctr prior = Fin 2.0 \<and> ctr m = Fin c
        \<and> \<bar>c - 1.3\<bar> \<le> 1 / 10 ^ 6 \<and> cpm m = cpm prior"
  then have "\<bar>c - 1.3\<bar> \<le> 1 / 10 ^ 6" by simp
  from pct_change_near_35 [OF this, of rd] obtain r
    where r: "pct_change rd (Fin c) (Fin 2) = Fin r" "- 35.001 < r" "r < - 34.999"
    by blast
  from h have c: "c - 1.3 \<le> 1 / 10 ^ 6" "- (c - 1.3) \<le> 1 / 10 ^ 6"
    by (simp_all only: abs_le_iff)
  from h r show "\<exists>r. pct_change rd (ctr m) (ctr prior) = Fin r \<and> - 35.001 < r \<and> r < - 34.999"
    by simp
  from h r show lt: "js_lt (pct_change rd (ctr m) (ctr prior)) (Fin (- 30))"
    by simp
  from h c show ge: "\<not> js_lt (ctr m) (Fin 0.8)"
    by simp
  from h ge show "\<not> emitted ''CTR_CRASH''
      (fst (detectSignificantChanges rd ns now campaignId m cs))"
    by (simp add: emitted_crash)
  from h r c pct_change_same_gt [of rd "cpm prior"]
  show "fst (detectSignificantChanges rd ns now campaignId m cs) = None"
    by (simp add: detect_null_iff emitted_crash emitted_spike emitted_boost js_gt_def)
next
  assume h: "cs campaignId = Some prior \<and> ctr prior = Fin 1 \<and> ctr m = Fin 0.75"
  then show "pct_change rd (ctr m) (ctr prior) = Fin (- 25)"
    using pct_change_minus_25 [of rd] by simp
  from h show "js_lt (ctr m) (Fin 0.8)" by simp
  from h show "\<not> emitted ''CTR_CRASH''
      (fst (detectSignificantChanges rd ns now campaignId m cs))"
    using pct_change_minus_25 [of rd] by (simp add: emitted_crash)
next
  assume h: "cs campaignId = Some prior \<and> ctr prior = Fin 2 \<and> ctr m = Fin 0.5"
  then show "pct_change rd (ctr m) (ctr prior) = Fin (- 75)"
    using pct_change_minus_75 [of rd] by simp
  from h show "js_lt (ctr m) (Fin 0.8)" by simp
  from h show "emitted ''CTR_CRASH''
      (fst (detectSignificantChanges rd ns now campaignId m cs))"
    using pct_change_minus_75 [of rd] by (simp add: emitted_crash)
qed

theorem ctr_crash_needs_both_conditions_witness:
  "(\<bar>(1.3::real) - 1.3\<bar> \<le> 1 / 10 ^ 6
    \<and> js_lt (pct_change exact_rounding (Fin 1.3) (Fin 2.0)) (Fin (- 30))
    \<and> \<not> js_lt (Fin 1.3) (Fin 0.8)
    \<and> fst (detectSignificantChanges exact_rounding print_whole ''t1'' ''c1''
         \<lparr>ctr = Fin 1.3, cpm = Fin 10, spend = Fin 6, frequency = Fin 1\<rparr>
         [''c1'' \<mapsto> \<lparr>ctr = Fin 2.0, cpm = Fin 10, spend = Fin 5, frequency = Fin 1,
            lastChecked = ''t0'', previousCtr = None, previousCpm = None\<rparr>]) = None)
   \<and> (pct_change exact_rounding (Fin 0.75) (Fin 1) = Fin (- 25)
    \<and> \<not> emitted ''CTR_CRASH''
        (fst (detectSignificantChanges exact_rounding print_whole ''t1'' ''c1''
           \<lparr>ctr = Fin 0.75, cpm = Fin 10, spend = Fin 6, frequency = Fin 1\<rparr>
           [''c1'' \<mapsto> \<lparr>ctr = Fin 1, cpm = Fin 10, spend = Fin 5, frequency = Fin 1,
              lastChecked = ''t0'', previousCtr = None, previousCpm = None\<rparr>])))
   \<and> (pct_change exact_rounding (Fin 0.5) (Fin 2) = Fin (- 75)
    \<and> emitted ''CTR_CRASH''
        (fst (detectSignificantChanges exact_rounding print_whole ''t1'' ''c1''
           \<lparr>ctr = Fin 0.5, cpm = Fin 10, spend = Fin 6, frequency = Fin 1\<rparr>
           [''c1'' \<mapsto> \<lparr>ctr = Fin 2, cpm = Fin 10, spend = Fin 5, frequency = Fin 1,
              lastChecked = ''t0'', previousCtr = None, previousCpm = None\<rparr>])))"
  using
    ctr_crash_needs_both_conditions
      [where rd = exact_rounding and ns = print_whole and now = "''t1''"
         and campaignId = "''c1''" and c = "1.3"
         and m = "\<lparr>ctr = Fin 1.3, cpm = Fin 10, spend = Fin 6, frequency = Fin 1\<rparr>"
         and cs = "[''c1'' \<mapsto> \<lparr>ctr = Fin 2.0, cpm = Fin 10, spend = Fin 5,
            frequency = Fin 1, lastChecked = ''t0'', previousCtr = None,
            previousCpm = None\<rparr>]"
         and prior = "\<lparr>ctr = Fin 2.0, cpm = Fin 10, spend = Fin 5, frequency = Fin 1,
            lastChecked = ''t0'', previousCtr = None, previousCpm = None\<rparr>"]
    ctr_crash_needs_both_conditions
      [where rd = exact_rounding and ns = print_whole and now = "''t1''"
         and campaignId = "''c1''" and c = "0.75"
         and m = "\<lparr>ctr = Fin 0.75, cpm = Fin 10, spend = Fin 6, frequency = Fin 1\<rparr>"
         and cs = "[''c1'' \<mapsto> \<lparr>ctr = Fin 1, cpm = Fin 10, spend = Fin 5,
            frequency = Fin 1, lastChecked = ''t0'', previousCtr = None,
            previousCpm = None\<rparr>]"
         and prior = "\<lparr>ctr = Fin 1, cpm = Fin 10, spend = Fin 5, frequency = Fin 1,
            lastChecked = ''t0'', previousCtr = None, previousCpm = None\<rparr>"]
    ctr_crash_needs_both_conditions
      [where rd = exact_rounding and ns = print_whole and now = "''t1''"
         and campaignId = "''c1''" and c = "0.5"
         and m = "\<lparr>ctr = Fin 0.5, cpm = Fin 10, spend = Fin 6, frequency = Fin 1\<rparr>"
         and cs = "[''c1'' \<mapsto> \<lparr>ctr = Fin 2, cpm = Fin 10, spend = Fin 5,
            frequency = Fin 1, lastChecked = ''t0'', previousCtr = None,
            previousCpm = None\<rparr>]"
         and prior = "\<lparr>ctr = Fin 2, cpm = Fin 10, spend = Fin 5, frequency = Fin 1,
            lastChecked = ''t0'', previousCtr = None, previousCpm = None\<rparr>"]
  by simp

text \<open>
  C10. The division of the percentage change is not guarded against a prior value of
  zero. With a prior CTR of 0 and a current CTR above 1.5 the change is \<open>+Infinity\<close>
  and a \<open>PERFORMANCE_BOOST\<close> event is emitted; with a prior CPM of 0 and a current CPM
  above 50 the change is \<open>+Infinity\<close> and a \<open>CPM_SPIKE\<close> event is emitted; when prior
  and current value are both 0 the change is \<open>NaN\<close> and the metric fires no event.
\<close>

theorem zero_prior_not_guarded:
  assumes "cs campaignId = Some prior"
  shows
   "(ctr prior = Fin 0 \<and> js_gt (ctr m) (Fin 1.5) \<longrightarrow>
       pct_change rd (ctr m) (ctr prior) = PosInf
       \<and> emitted ''PERFORMANCE_BOOST''
           (fst (detectSignificantChanges rd ns now campaignId m cs)))
    \<and> (cpm prior = Fin 0 \<and> js_gt (cpm m) (Fin 50) \<longrightarrow>
       pct_change rd (cpm m) (cpm prior) = PosInf
       \<and> emitted ''CPM_SPIKE''
           (fst (detectSignificantChanges rd ns now campaignId m cs)))
    \<and> (ctr prior = Fin 0 \<and> ctr m = Fin 0 \<longrightarrow>
       pct_change rd (ctr m) (ctr prior) = NaN
       \<and> \<not> emitted ''CTR_CRASH''
           (fst (detectSignificantChanges rd ns now campaignId m cs))
       \<and> \<not> emitted ''PERFORMANCE_BOOST''
           (fst (detectSignificantChanges rd ns now campaignId m cs)))
    \<and> (cpm prior = Fin 0 \<and> cpm m = Fin 0 \<longrightarrow>
       pct_change rd (cpm m) (cpm prior) = NaN
       \<and> \<not> emitted ''CPM_SPIKE''
           (fst (detectSignificantChanges rd ns now campaignId m cs)))
    \<and> (ctr prior = Fin 0 \<and> ctr m = Fin 0 \<and> cpm prior = Fin 0 \<and> cpm m = Fin 0 \<longrightarrow>
       fst (detectSignificantChanges rd ns now campaignId m cs) = None)"
proof (intro conjI impI)
  assume h: "ctr prior = Fin 0 \<and> js_gt (ctr m) (Fin 1.5)"
  then have "js_gt (ctr m) (Fin 1)" by (auto intro: js_gt_trans_Fin)
  with h show inf: "pct_change rd (ctr m) (ctr prior) = PosInf"
    by (simp add: pct_change_zero_prior)
  from h inf assms
  show "emitted ''PERFORMANCE_BOOST''
          (fst (detectSignificantChanges rd ns now campaignId m cs))"
    by (simp add: emitted_boost js_gt_def)
next
  assume h: "cpm prior = Fin 0 \<and> js_gt (cpm m) (Fin 50)"
  then have "js_gt (cpm m) (Fin 1)" by (auto intro: js_gt_trans_Fin)
  with h show inf: "pct_change rd (cpm m) (cpm prior) = PosInf"
    by (simp add: pct_change_zero_prior)
  from h inf assms
  show "emitted ''CPM_SPIKE''
          (fst (detectSignificantChanges rd ns now campaignId m cs))"
    by (simp add: emitted_spike js_gt_def)
next
  assume h: "ctr prior = Fin 0 \<and> ctr m = Fin 0"
  then show nan: "pct_change rd (ctr m) (ctr prior) = NaN"
    by (simp add: pct_change_zero_zero)
  from h nan assms
  show "\<not> emitted ''CTR_CRASH''
          (fst (detectSignificantChanges rd ns now campaignId m cs))"
    by (simp add: emitted_crash)
  from h nan assms
  show "\<not> emitted ''PERFORMANCE_BOOST''
          (fst (detectSignificantChanges rd ns now campaignId m cs))"
    by (simp add: emitted_boost js_gt_def)
next
  assume h: "cpm prior = Fin 0 \<and> cpm m = Fin 0"
  then show nan: "pct_change rd (cpm m) (cpm prior) = NaN"
    by (simp add: pct_change_zero_zero)
  from h nan assms
  show "\<not> emitted ''CPM_SPIKE''
          (fst (detectSignificantChanges rd ns now campaignId m cs))"
    by (simp add: emitted_spike js_gt_def)
next
  assume "ctr prior = Fin 0 \<and> ctr m = Fin 0 \<and> cpm prior = Fin 0 \<and> cpm m = Fin 0"
  with assms show "fst (detectSignificantChanges rd ns now campaignId m cs) = None"
    by (simp add: detect_null_iff emitted_crash emitted_spike emitted_boost
        pct_change_zero_zero js_gt_def)
qed

theorem zero_prior_not_guarded_witness:
  "(pct_change exact_rounding (Fin 2) (Fin 0) = PosInf
    \<and> emitted ''PERFORMANCE_BOOST''
        (fst (detectSignificantChanges exact_rounding print_whole ''t1'' ''c1''
           \<lparr>ctr = Fin 2, cpm = Fin 60, spend = Fin 6, frequency = Fin 1\<rparr>
           [''c1'' \<mapsto> \<lparr>ctr = Fin 0, cpm = Fin 0, spend = Fin 0, frequency = Fin 0,
              lastChecked = ''t0'', previousCtr = None, previousCpm = None\<rparr>]))
    \<and> pct_change exact_rounding (Fin 60) (Fin 0) = PosInf
    \<and> emitted ''CPM_SPIKE''
        (fst (detectSignificantChanges exact_rounding print_whole ''t1'' ''c1''
           \<lparr>ctr = Fin 2, cpm = Fin 60, spend = Fin 6, frequency = Fin 1\<rparr>
           [''c1'' \<mapsto> \<lparr>ctr = Fin 0, cpm = Fin 0, spend = Fin 0, frequency = Fin 0,
              lastChecked = ''t0'', previousCtr = None, previousCpm = None\<rparr>])))
   \<and> (pct_change exact_rounding (Fin 0) (Fin 0) = NaN
    \<and> fst (detectSignificantChanges exact_rounding print_whole ''t1'' ''c1''
           \<lparr>ctr = Fin 0, cpm = Fin 0, spend = Fin 0, frequency = Fin 0\<rparr>
           [''c1'' \<mapsto> \<lparr>ctr = Fin 0, cpm = Fin 0, spend = Fin 0, frequency = Fin 0,
              lastChecked = ''t0'', previousCtr = None, previousCpm = None\<rparr>]) = None)"
  using
    zero_prior_not_guarded
      [where cs = "[''c1'' \<mapsto> \<lparr>ctr = Fin 0, cpm = Fin 0, spend = Fin 0, frequency = Fin 0,
              lastChecked = ''t0'', previousCtr = None, previousCpm = None\<rparr>]"
         and campaignId = "''c1''"
         and prior = "\<lparr>ctr = Fin 0, cpm = Fin 0, spend = Fin 0, frequency = Fin 0,
              lastChecked = ''t0'', previousCtr = None, previousCpm = None\<rparr>"
         and m = "\<lparr>ctr = Fin 2, cpm = Fin 60, spend = Fin 6, frequency = Fin 1\<rparr>"
         and rd = exact_rounding and ns = print_whole and now = "''t1''"]
    zero_prior_not_guarded
      [where cs = "[''c1'' \<mapsto> \<lparr>ctr = Fin 0, cpm = Fin 0, spend = Fin 0, frequency = Fin 0,
              lastChecked = ''t0'', previousCtr = None, previousCpm = None\<rparr>]"
         and campaignId = "''c1''"
         and prior = "\<lparr>ctr = Fin 0, cpm = Fin 0, spend = Fin 0, frequency = Fin 0,
              lastChecked = ''t0'', previousCtr = None, previousCpm = None\<rparr>"
         and m = "\<lparr>ctr = Fin 0, cpm = Fin 0, spend = Fin 0, frequency = Fin 0\<rparr>"
         and rd = exact_rounding and ns = print_whole and now = "''t1''"]
  by (simp add: js_gt_def)

section \<open>Properties of the approval handler\<close>

lemma toUpperCase_empty: "toUpperCase s = [] \<longleftrightarrow> s = []"
  by (simp add: toUpperCase_def)

lemma process_approval_try_expired:
  assumes "pendingApprovals st aid = Some a" and "status a = ''pending''"
    and "expiresAt a < clock e 0" and "aid \<noteq> []" and "act \<noteq> []"
  shows "process_approval_try e (Some aid) (Some act) st =
     Inr (JObj [(''error'', JStr ''Approval expired''), (''approvalId'', JStr aid),
                (''expiredAt'', JStr (toISOString e (expiresAt a)))],
          st\<lparr>pendingApprovals := (pendingApprovals st)(aid \<mapsto> a\<lparr>status := ''expired''\<rparr>)\<rparr>)"
  using assms by (simp add: process_approval_try_def toUpperCase_empty)

lemma example_state_eq:
  "example_state =
     \<lparr>campaignState = Map.empty,
      pendingApprovals =
        [''APR1000'' \<mapsto>
           \<lparr>action = ''PAUSE_CAMPAIGNS'', data = example_data, createdAt = 1000,
            expiresAt = 7201000, status = ''pending'', processedAt = None\<rparr>]\<rparr>"
  by (simp add: example_state_def createApprovalRequest_def example_env_create_def eval_text
      Let_def)

lemma pendingApprovals_loadState: "pendingApprovals (loadState e st) = pendingApprovals st"
  by (simp add: loadState_def split: option.splits)

text \<open>
  An expired approval, for every call that names it and carries an action, in every
  environment: the check of the expiry returns the error payload \<open>Approval expired\<close>
  and sets the status to \<open>expired\<close>; the approval has that status when the handler
  ends; and the handler returns the payload if the state file is written.
\<close>

lemma process_approval_after_expiry:
  assumes "pendingApprovals st aid = Some a" and "status a = ''pending''"
    and "expiresAt a < clock e 0" and "aid \<noteq> []" and "act \<noteq> []"
  shows "process_approval_try e (Some aid) (Some act) (loadState e st) =
           Inr (JObj [(''error'', JStr ''Approval expired''), (''approvalId'', JStr aid),
                      (''expiredAt'', JStr (toISOString e (expiresAt a)))],
                (loadState e st)\<lparr>pendingApprovals :=
                   (pendingApprovals st)(aid \<mapsto> a\<lparr>status := ''expired''\<rparr>)\<rparr>)
     \<and> pendingApprovals (snd (process_approval e (Some aid) (Some act) st)) aid =
           Some (a\<lparr>status := ''expired''\<rparr>)
     \<and> (saveState e (loadState e st) = None \<longrightarrow>
          fst (process_approval e (Some aid) (Some act) st) =
            Inr (JObj [(''error'', JStr ''Approval expired''), (''approvalId'', JStr aid),
                       (''expiredAt'', JStr (toISOString e (expiresAt a)))]))"
proof -
  have p: "pendingApprovals (loadState e st) aid = Some a"
    using assms(1) by (simp add: pendingApprovals_loadState)
  note t = process_approval_try_expired [OF p assms(2-5)]
  show ?thesis
    by (simp add: process_approval_def t Let_def saveState_def pendingApprovals_loadState
        split: option.splits)
qed

lemma process_approval_try_campaignState:
  "process_approval_try e approvalId action_arg st = Inr (p, st') \<Longrightarrow>
   campaignState st' = campaignState st"
  by (auto simp add: process_approval_try_def Let_def
      split: option.splits if_splits prod.splits)

text \<open>Whatever the arguments, a write that fails ends the call with its error.\<close>

lemma process_approval_write_error:
  assumes "saveState e (loadState e st) = Some msg"
  shows "fst (process_approval e approvalId action_arg st) = Inl msg"
proof (cases "process_approval_try e approvalId action_arg (loadState e st)")
  case (Inl err)
  with assms show ?thesis by (simp add: process_approval_def)
next
  case (Inr r)
  obtain p st' where r: "r = (p, st')" by (cases r)
  with Inr have "campaignState st' = campaignState (loadState e st)"
    by (auto dest: process_approval_try_campaignState)
  with assms Inr r show ?thesis by (simp add: process_approval_def saveState_def)
qed

text \<open>
  C4 says that resolving a pending approval after its \<open>expiresAt\<close> returns the error
  payload \<open>Approval expired\<close> and leaves the approval with the status \<open>expired\<close>.
  The handler does not always return the payload. In the example the approval is
  pending and the clock is past its expiry; the \<open>try\<close> block returns the payload and
  the approval is left expired, but the state file cannot be written and the call ends
  with the error of the write in place of the payload. It is the defect of C8.
\<close>

theorem process_approval_expired_unwritable:
  "map_option status (pendingApprovals example_state ''APR1000'') = Some ''pending''
   \<and> map_option expiresAt (pendingApprovals example_state ''APR1000'') = Some 7201000
   \<and> clock example_env_readonly 0 = 7201001
   \<and> map_sum id fst
        (process_approval_try example_env_readonly (Some ''APR1000'') (Some ''approve'')
           (loadState example_env_readonly example_state)) =
       Inr (JObj [(''error'', JStr ''Approval expired''), (''approvalId'', JStr ''APR1000''),
                  (''expiredAt'', JStr ''1970-01-01T02:00:01.000Z'')])
   \<and> map_option status
        (pendingApprovals
           (snd (process_approval example_env_readonly (Some ''APR1000'') (Some ''approve'')
              example_state)) ''APR1000'') = Some ''expired''
   \<and> fst (process_approval example_env_readonly (Some ''APR1000'') (Some ''approve'')
        example_state) = Inl ''EROFS: read-only file system''"
  by (simp add: process_approval_def process_approval_try_def toUpperCase_def
      example_state_eq example_env_def example_env_create_def example_env_readonly_def
      saveState_def loadState_def Let_def)

text \<open>
  C8 asks that a failure to write the state file be logged and swallowed. The handler
  does not do so: in the example, where the approval has expired, the call returns
  the payload \<open>Approval expired\<close> when the file can be written and ends with the
  error of the write when it cannot. The error replaces the payload.
\<close>

theorem process_approval_write_failure:
  "fst (process_approval example_env (Some ''APR1000'') (Some ''approve'') example_state) =
     Inr (JObj [(''error'', JStr ''Approval expired''), (''approvalId'', JStr ''APR1000''),
                (''expiredAt'', JStr ''1970-01-01T02:00:01.000Z'')])
   \<and> fst (process_approval example_env_readonly (Some ''APR1000'') (Some ''approve'')
        example_state) = Inl ''EROFS: read-only file system''"
  by (simp add: process_approval_def process_approval_try_def toUpperCase_def
      example_state_eq example_env_def example_env_create_def example_env_readonly_def
      saveState_def loadState_def Let_def)

section \<open>How the analysis reads its numeric fields\<close>












section \<open>A high CTR\<close>

lemma cpm_analysis_none:
  "\<not> js_gt (num_field ns (get_prop metrics ''cpm'')) (Fin 50) \<Longrightarrow>
   cpm_analysis ns metrics a = a"
  using js_gt_trans_Fin [of "num_field ns (get_prop metrics ''cpm'')" 75 50]
  by (auto simp add: cpm_analysis_def THRESHOLDS_defs Let_def)

lemma frequency_analysis_none:
  "\<not> js_gt (num_field ns (get_prop metrics ''frequency'')) (Fin 5) \<Longrightarrow>
   frequency_analysis ns metrics a = a"
  using js_gt_trans_Fin [of "num_field ns (get_prop metrics ''frequency'')" 7 5]
  by (auto simp add: frequency_analysis_def THRESHOLDS_defs Let_def)

lemma roas_analysis_none:
  "\<not> truthy (get_prop metrics ''purchase_roas'')
   \<or> js_ge (num_field ns (first_value (get_prop metrics ''purchase_roas''))) (Fin 1.5)
     \<and> js_ge (Fin 3) (num_field ns (first_value (get_prop metrics ''purchase_roas''))) \<Longrightarrow>
   roas_analysis ns metrics a = a"
  by (auto simp add: roas_analysis_def THRESHOLDS_defs js_ge_def js_gt_def Let_def)

lemma js_ge_not_lt: "js_ge x (Fin a) \<Longrightarrow> b \<le> a \<Longrightarrow> \<not> js_lt x (Fin b)"
  by (cases x) (simp_all add: js_ge_def)

text \<open>
  C6 as the code has it. For every metrics snapshot with no other threshold breached
  (the CPM not above 50, the frequency not above 5, the ROAS absent or from 1.5 to 3):
  with a CTR of at least 1.5 the status is not \<open>critical\<close> (it is \<open>excellent\<close>, the
  score being 100), and with a CTR strictly above 1.5 the recommendations are the
  scale-up recommendation for the CTR winner.
\<close>

theorem high_ctr_scale_up:
  assumes "\<not> js_gt (num_field ns (get_prop metrics ''cpm'')) (Fin 50)"
    and "\<not> js_gt (num_field ns (get_prop metrics ''frequency'')) (Fin 5)"
    and "\<not> truthy (get_prop metrics ''purchase_roas'')
       \<or> js_ge (num_field ns (first_value (get_prop metrics ''purchase_roas''))) (Fin 1.5)
         \<and> js_ge (Fin 3) (num_field ns (first_value (get_prop metrics ''purchase_roas'')))"
  shows "(js_ge (num_field ns (get_prop metrics ''ctr'')) (Fin 1.5) \<longrightarrow>
            analysis.status (analyzeMetrics ns metrics ctx) \<noteq> ''critical''
            \<and> analysis.status (analyzeMetrics ns metrics ctx) = ''excellent''
            \<and> score (analyzeMetrics ns metrics ctx) = 100)
       \<and> (js_gt (num_field ns (get_prop metrics ''ctr'')) (Fin 1.5) \<longrightarrow>
            recommendations (analyzeMetrics ns metrics ctx) =
              [sym_target @ '' Excellent CTR (''
                 @ toFixed ns 2 (num_field ns (get_prop metrics ''ctr''))
                 @ ''%) - Scale this winner''])"
proof -
  have eq: "analyzeMetrics ns metrics ctx =
      final_status (ctr_analysis ns metrics ctx initial_analysis)"
    by (simp add: analyzeMetrics_def cpm_analysis_none [OF assms(1)]
        frequency_analysis_none [OF assms(2)] roas_analysis_none [OF assms(3)])
  have ge: "analysis.status (analyzeMetrics ns metrics ctx) = ''excellent''
      \<and> score (analyzeMetrics ns metrics ctx) = 100"
    if "js_ge (num_field ns (get_prop metrics ''ctr'')) (Fin 1.5)"
    using js_ge_not_lt [OF that, of "0.5"] js_ge_not_lt [OF that, of "0.8"]
    by (simp add: eq ctr_analysis_def final_status_def initial_analysis_def THRESHOLDS_defs
        Let_def)
  have gt: "recommendations (analyzeMetrics ns metrics ctx) =
              [sym_target @ '' Excellent CTR (''
                 @ toFixed ns 2 (num_field ns (get_prop metrics ''ctr''))
                 @ ''%) - Scale this winner'']"
    if "js_gt (num_field ns (get_prop metrics ''ctr'')) (Fin 1.5)"
  proof -
    from that have "js_ge (num_field ns (get_prop metrics ''ctr'')) (Fin 1.5)"
      by (cases "num_field ns (get_prop metrics ''ctr'')") (simp_all add: js_ge_def js_gt_def)
    from js_ge_not_lt [OF this, of "0.5"] js_ge_not_lt [OF this, of "0.8"] that
    show ?thesis
      by (simp add: eq ctr_analysis_def final_status_def initial_analysis_def THRESHOLDS_defs
          Let_def)
  qed
  from ge gt show ?thesis by simp
qed

theorem high_ctr_scale_up_witness:
  "analysis.status (analyzeMetrics print_whole
       [(''ctr'', JStr ''2.4''), (''cpm'', JStr ''12.5''),
        (''purchase_roas'', JArr [JObj [(''action_type'', JStr ''omni_purchase''),
                                        (''value'', JStr ''2.1'')]])] []) = ''excellent''
   \<and> recommendations (analyzeMetrics print_whole
       [(''ctr'', JStr ''2.4''), (''cpm'', JStr ''12.5''),
        (''purchase_roas'', JArr [JObj [(''action_type'', JStr ''omni_purchase''),
                                        (''value'', JStr ''2.1'')]])] []) =
       [sym_target @ '' Excellent CTR (2.40%) - Scale this winner'']"
proof -
  have n: "num_field print_whole (JStr ''2.4'') = Fin 2.4"
    "num_field print_whole (JStr ''12.5'') = Fin 12.5"
    "num_field print_whole (JStr ''2.1'') = Fin 2.1"
    "num_field print_whole Undefined = Fin 0"
    by (simp_all add: num_field_def js_or_def eval_parse)
  show ?thesis
    using high_ctr_scale_up
      [where ns = print_whole and ctx = "[]"
         and metrics = "[(''ctr'', JStr ''2.4''), (''cpm'', JStr ''12.5''),
           (''purchase_roas'', JArr [JObj [(''action_type'', JStr ''omni_purchase''),
                                           (''value'', JStr ''2.1'')]])]"]
    by (simp add: n get_prop_def first_value_def js_gt_def js_ge_def eval_text)
qed

text \<open>
  The claim itself fails at a CTR of exactly 1.5, which is not above the threshold:
  no recommendation is added.
\<close>

theorem ctr_at_threshold_no_scale_up:
  "js_ge (num_field print_whole (get_prop [(''ctr'', JNum (Fin 1.5))] ''ctr'')) (Fin 1.5)
   \<and> \<not> js_gt (num_field print_whole (get_prop [(''ctr'', JNum (Fin 1.5))] ''cpm'')) (Fin 50)
   \<and> \<not> js_gt (num_field print_whole (get_prop [(''ctr'', JNum (Fin 1.5))] ''frequency''))
         (Fin 5)
   \<and> \<not> truthy (get_prop [(''ctr'', JNum (Fin 1.5))] ''purchase_roas'')
   \<and> recommendations (analyzeMetrics print_whole [(''ctr'', JNum (Fin 1.5))] []) = []"
  by (simp add: eval_analysis eval_parse eval_text js_ge_def)

end
